theory Spec2Isabelle
  imports Complex_Main
begin

section \<open>The training driver \<open>fast_segmentation/core/train.py\<close>\<close>

text \<open>
  The script orchestrates calls into an external deep-learning framework. The embedding
  keeps the script's control flow and data flow and treats every framework call as an
  external call: the call (with its arguments) and its outcome are appended to a log, the
  outcome is chosen by a \<open>framework\<close> that may depend on everything that happened
  before, and every call may raise. Python exceptions are values: a computation returns
  \<open>Inl e\<close> when it raises \<open>e\<close>.

  Python floats are idealised as reals (rounding, infinities and NaN are not modelled).
\<close>

subsection \<open>Values\<close>

text \<open>Exceptions: the ones the script's own statements raise, and the framework's.\<close>

datatype exn = ZeroDivisionError | ValueError | IndexError | FrameworkError string

text \<open>An opaque framework object (tensor, module, meter, writer, ...), known by its handle.\<close>

datatype obj = Obj nat

text \<open>A model parameter, as \<open>named_parameters\<close> yields it; \<open>pdim\<close> is \<open>param.dim()\<close>.\<close>

datatype param = Param (pid: nat) (pdim: nat)

text \<open>The namespace \<open>parse_args\<close> returns.\<close>

record args =
  local_rank :: int
  port :: int
  model :: string
  finetune_from :: string
  im_root :: string
  train_im_anns :: string
  val_im_anns :: string
  log_path :: string
  false_analysis_path :: string
  tensorboard_path :: string
  models_path :: string
  config_path :: string
  amp :: bool

text \<open>The keys of the YAML configuration the script reads, typed as \<open>train\<close> annotates them.\<close>

record config =
  ims_per_gpu :: int
  scales :: "real list"
  crop_size :: "int \<times> int"
  max_iter :: int
  use_sync_bn :: bool
  num_aux_heads :: int
  warmup_iters :: int
  use_fp16 :: bool
  message_iters :: int
  checkpoint_iters :: int
  lr_start :: real
  optimizer_betas :: "real \<times> real"
  weight_decay :: real

text \<open>
  Python values as they cross the boundary to the framework: arguments of calls and what
  calls return. \<open>VDict\<close> is a dict literal, in the order its keys are written.
\<close>

datatype val = VNone | VBool bool | VInt int | VReal real | VStr string | VObj obj
  | VParam param | VList "val list" | VTuple "val list" | VDict "(string \<times> val) list"

subsection \<open>Framework calls, the log, and computations\<close>

text \<open>
  A call names the callee as the source writes it, then the positional arguments (the
  receiver of a method first), then the keyword arguments in source order.
\<close>

datatype call = Call (callee: string) (pos: "val list") (kw: "(string \<times> val) list")

text \<open>
  What a call did: it returned a value, it raised, or (for \<open>next\<close> on an iterator driven
  by a \<open>for\<close> statement) it signalled that the iterator is exhausted.
\<close>

datatype outcome = Returned val | Raised exn | Exhausted

type_synonym log = "(call \<times> outcome) list"

text \<open>
  The framework: whether a call raises and what it returns, given everything that
  happened before it. Results are typed as the framework documents them.
\<close>

record framework =
  raises :: "log \<Rightarrow> call \<Rightarrow> exn option"
  ret_obj :: "log \<Rightarrow> call \<Rightarrow> obj"
  ret_objs :: "log \<Rightarrow> call \<Rightarrow> obj list"
  ret_str :: "log \<Rightarrow> call \<Rightarrow> string"
  ret_int :: "log \<Rightarrow> call \<Rightarrow> int"
  ret_bool :: "log \<Rightarrow> call \<Rightarrow> bool"
  ret_real :: "log \<Rightarrow> call \<Rightarrow> real"
  ret_reals :: "log \<Rightarrow> call \<Rightarrow> real list"
  ret_params :: "log \<Rightarrow> call \<Rightarrow> (string \<times> param) list"
  ret_batches :: "log \<Rightarrow> call \<Rightarrow> (obj \<times> obj) list"
  ret_eval :: "log \<Rightarrow> call \<Rightarrow> string list \<times> real list"
  ret_args :: "log \<Rightarrow> call \<Rightarrow> args"
  ret_cfg :: "log \<Rightarrow> call \<Rightarrow> config"

text \<open>
  A computation reads the history and yields its result (\<open>Inl\<close> an exception) together
  with the log entries it added.
\<close>

type_synonym 'a prog = "log \<Rightarrow> (exn + 'a) \<times> log"

definition ret :: "'a \<Rightarrow> 'a prog" where
  "ret x h = (Inr x, [])"

definition throw :: "exn \<Rightarrow> 'a prog" where
  "throw e h = (Inl e, [])"

definition bnd :: "'a prog \<Rightarrow> ('a \<Rightarrow> 'b prog) \<Rightarrow> 'b prog" where
  "bnd m f h =
     (case m h of
        (Inl e, es) \<Rightarrow> (Inl e, es)
      | (Inr x, es) \<Rightarrow> (case f x (h @ es) of (r, es') \<Rightarrow> (r, es @ es')))"

definition invoke ::
  "framework \<Rightarrow> call \<Rightarrow> (framework \<Rightarrow> log \<Rightarrow> call \<Rightarrow> 'a) \<Rightarrow> ('a \<Rightarrow> val) \<Rightarrow> 'a prog" where
  "invoke fw c sel enc h =
     (case raises fw h c of
        Some e \<Rightarrow> (Inl e, [(c, Raised e)])
      | None \<Rightarrow> (let v = sel fw h c in (Inr v, [(c, Returned (enc v))])))"

definition call_none :: "framework \<Rightarrow> call \<Rightarrow> unit prog" where
  "call_none fw c = invoke fw c (\<lambda>_ _ _. ()) (\<lambda>_. VNone)"

definition call_obj :: "framework \<Rightarrow> call \<Rightarrow> obj prog" where
  "call_obj fw c = invoke fw c ret_obj VObj"

definition call_str :: "framework \<Rightarrow> call \<Rightarrow> string prog" where
  "call_str fw c = invoke fw c ret_str VStr"

text \<open>A list comprehension whose element expression calls the framework.\<close>

fun mapM :: "('a \<Rightarrow> 'b prog) \<Rightarrow> 'a list \<Rightarrow> 'b list prog" where
  "mapM f [] = ret []"
| "mapM f (x # xs) = bnd (f x) (\<lambda>y. bnd (mapM f xs) (\<lambda>ys. ret (y # ys)))"

text \<open>
  A \<open>with\<close> statement over a context manager whose \<open>__exit__\<close> returns a false value (as
  a file's and \<open>torch.cuda.amp.autocast\<close>'s do): \<open>__exit__\<close> runs however the body ends,
  the body's exception is re-raised after it, and an exception of \<open>__exit__\<close> itself replaces
  it.
\<close>

definition with_ctx :: "framework \<Rightarrow> obj \<Rightarrow> (obj \<Rightarrow> 'a prog) \<Rightarrow> 'a prog" where
  "with_ctx fw ctx body h =
     (case call_obj fw (Call ''__enter__'' [VObj ctx] []) h of
        (Inl e, es) \<Rightarrow> (Inl e, es)
      | (Inr v, es) \<Rightarrow>
          (case body v (h @ es) of
             (r, es1) \<Rightarrow>
               (case call_none fw (Call ''__exit__'' [VObj ctx] []) (h @ es @ es1) of
                  (Inl e', es2) \<Rightarrow> (Inl e', es @ es1 @ es2)
                | (Inr _, es2) \<Rightarrow> (r, es @ es1 @ es2))))"

subsection \<open>Pure helpers of the language and its standard library\<close>

text \<open>\<open>range(n)\<close>: empty when \<open>n \<le> 0\<close>.\<close>

definition py_range :: "int \<Rightarrow> nat list" where
  "py_range n = [0..<nat n]"

text \<open>\<open>str(n)\<close> for a natural number and for an integer, as \<open>str.format\<close> inserts it.\<close>

definition digit_char :: "nat \<Rightarrow> char" where
  "digit_char d = char_of (48 + d)"

fun str_of_nat :: "nat \<Rightarrow> string" where
  "str_of_nat n = (if n < 10 then [digit_char n] else str_of_nat (n div 10) @ [digit_char (n mod 10)])"

definition str_of_int :: "int \<Rightarrow> string" where
  "str_of_int i = (if i < 0 then ''-'' @ str_of_nat (nat (- i)) else str_of_nat (nat i))"

text \<open>\<open>os.path.join(a, b)\<close> on POSIX.\<close>

definition path_join :: "string \<Rightarrow> string \<Rightarrow> string" where
  "path_join a b =
     (if b \<noteq> [] \<and> hd b = CHR ''/'' then b
      else if a = [] \<or> last a = CHR ''/'' then a @ b
      else a @ ''/'' @ b)"

text \<open>\<open>a % b\<close> on integers: the sign of the result follows \<open>b\<close>, as HOL's \<open>mod\<close> does.\<close>

definition py_mod :: "int \<Rightarrow> int \<Rightarrow> int prog" where
  "py_mod a b = (if b = 0 then throw ZeroDivisionError else ret (a mod b))"

text \<open>\<open>sum(xs) / len(xs)\<close> on a list of floats: \<open>sum\<close> adds from the left, starting at 0.\<close>

definition py_mean :: "real list \<Rightarrow> real prog" where
  "py_mean xs =
     (if length xs = 0 then throw ZeroDivisionError
      else ret (foldl (+) 0 xs / real (length xs)))"

text \<open>\<open>xs[0]\<close>.\<close>

definition py_first :: "'a list \<Rightarrow> 'a prog" where
  "py_first xs = (case xs of [] \<Rightarrow> throw IndexError | x # _ \<Rightarrow> ret x)"

subsection \<open>How typed results appear in the log\<close>

definition enc_reals :: "real list \<Rightarrow> val" where
  "enc_reals xs = VList (map VReal xs)"

definition enc_objs :: "obj list \<Rightarrow> val" where
  "enc_objs xs = VList (map VObj xs)"

definition enc_int_pair :: "int \<times> int \<Rightarrow> val" where
  "enc_int_pair p = VTuple [VInt (fst p), VInt (snd p)]"

definition enc_real_pair :: "real \<times> real \<Rightarrow> val" where
  "enc_real_pair p = VTuple [VReal (fst p), VReal (snd p)]"

definition enc_named_params :: "(string \<times> param) list \<Rightarrow> val" where
  "enc_named_params nps = VList (map (\<lambda>(name, p). VTuple [VStr name, VParam p]) nps)"

definition enc_batches :: "(obj \<times> obj) list \<Rightarrow> val" where
  "enc_batches bs = VList (map (\<lambda>(img, label). VTuple [VObj img, VObj label]) bs)"

definition enc_eval :: "string list \<times> real list \<Rightarrow> val" where
  "enc_eval r = VTuple [VList (map VStr (fst r)), enc_reals (snd r)]"


definition enc_cfg :: "config \<Rightarrow> val" where
  "enc_cfg c = VDict
     [(''ims_per_gpu'', VInt (ims_per_gpu c)), (''scales'', enc_reals (scales c)),
      (''crop_size'', enc_int_pair (crop_size c)), (''max_iter'', VInt (max_iter c)),
      (''use_sync_bn'', VBool (use_sync_bn c)), (''num_aux_heads'', VInt (num_aux_heads c)),
      (''warmup_iters'', VInt (warmup_iters c)), (''use_fp16'', VBool (use_fp16 c)),
      (''message_iters'', VInt (message_iters c)),
      (''checkpoint_iters'', VInt (checkpoint_iters c)),
      (''lr_start'', VReal (lr_start c)),
      (''optimizer_betas'', enc_real_pair (optimizer_betas c)),
      (''weight_decay'', VReal (weight_decay c))]"

subsection \<open>The script's functions\<close>

text \<open>
  A parameter whose name is also a field of \<open>args\<close> or \<open>config\<close> carries a trailing
  prime; the source's variable \<open>image\<close> is \<open>img\<close> here.
\<close>

subsubsection \<open>\<open>get_optimizer\<close>\<close>

text \<open>The loop over \<open>net.named_parameters()\<close>; the pair is \<open>(wd_params, non_wd_params)\<close>.\<close>

fun split_params :: "(string \<times> param) list \<Rightarrow> param list \<times> param list \<Rightarrow> param list \<times> param list" where
  "split_params [] acc = acc"
| "split_params ((name, p) # rest) (wd_params, non_wd_params) =
     (if pdim p = 1 then split_params rest (wd_params, non_wd_params @ [p])
      else if pdim p = 2 \<or> pdim p = 4 then split_params rest (wd_params @ [p], non_wd_params)
      else split_params rest (wd_params, non_wd_params))"

definition params_list :: "param list \<times> param list \<Rightarrow> val list" where
  "params_list ps =
     [VDict [(''params'', VList (map VParam (fst ps)))],
      VDict [(''params'', VList (map VParam (snd ps))), (''weight_decay'', VInt 0)]]"

definition adam_call :: "param list \<times> param list \<Rightarrow> real \<Rightarrow> real \<times> real \<Rightarrow> real \<Rightarrow> call" where
  "adam_call ps lr_start' optimizer_betas' weight_decay' =
     Call ''torch.optim.Adam'' [VList (params_list ps)]
       [(''lr'', VReal lr_start'), (''betas'', enc_real_pair optimizer_betas'),
        (''weight_decay'', VReal weight_decay')]"

definition get_optimizer :: "framework \<Rightarrow> obj \<Rightarrow> real \<Rightarrow> real \<times> real \<Rightarrow> real \<Rightarrow> obj prog" where
  "get_optimizer fw net lr_start' optimizer_betas' weight_decay' =
     bnd (invoke fw (Call ''net.named_parameters'' [VObj net] []) ret_params enc_named_params)
       (\<lambda>nps. call_obj fw
          (adam_call (split_params nps ([], [])) lr_start' optimizer_betas' weight_decay'))"

text \<open>
  What PyTorch makes of the constructor's arguments (\<open>Optimizer.add_param_group\<close>): an
  option a parameter-group dict does not set is taken from the keyword defaults.
\<close>

definition group_option :: "call \<Rightarrow> val \<Rightarrow> string \<Rightarrow> val option" where
  "group_option c g key =
     (case g of
        VDict d \<Rightarrow> (case map_of d key of Some v \<Rightarrow> Some v | None \<Rightarrow> map_of (kw c) key)
      | _ \<Rightarrow> None)"

text \<open>The parameters of a parameter-group dict.\<close>

definition group_params :: "val \<Rightarrow> val list" where
  "group_params g =
     (case g of
        VDict d \<Rightarrow> (case map_of d ''params'' of Some (VList ps) \<Rightarrow> ps | _ \<Rightarrow> [])
      | _ \<Rightarrow> [])"

subsubsection \<open>\<open>get_meters\<close>\<close>

definition get_meters :: "framework \<Rightarrow> int \<Rightarrow> int \<Rightarrow> (obj \<times> obj \<times> obj \<times> obj list) prog" where
  "get_meters fw max_iter' num_aux_heads' =
     bnd (call_obj fw (Call ''TimeMeter'' [VInt max_iter'] [])) (\<lambda>time_meter.
     bnd (call_obj fw (Call ''AvgMeter'' [VStr ''loss''] [])) (\<lambda>loss_meter.
     bnd (call_obj fw (Call ''AvgMeter'' [VStr ''loss_prem''] [])) (\<lambda>loss_pre_meter.
     bnd (mapM (\<lambda>i. call_obj fw (Call ''AvgMeter'' [VStr (''loss_aux'' @ str_of_nat i)] []))
            (py_range num_aux_heads')) (\<lambda>loss_aux_meters.
     ret (time_meter, loss_meter, loss_pre_meter, loss_aux_meters)))))"

subsubsection \<open>\<open>log_ious\<close>\<close>

definition add_scalar :: "framework \<Rightarrow> obj \<Rightarrow> string \<Rightarrow> val \<Rightarrow> nat \<Rightarrow> unit prog" where
  "add_scalar fw writer tag v iteration =
     call_none fw (Call ''writer.add_scalar'' [VObj writer, VStr tag, v, VInt (int iteration)] [])"

definition log_ious ::
  "framework \<Rightarrow> obj \<Rightarrow> real list \<Rightarrow> nat \<Rightarrow> string list \<Rightarrow> obj \<Rightarrow> string \<Rightarrow> unit prog" where
  "log_ious fw writer mious iteration headers logger mode =
     (case mious of
        [single_scale_miou, single_scale_crop_miou, ms_flip_miou, ms_flip_crop_miou] \<Rightarrow>
          bnd (add_scalar fw writer (''mIOU/'' @ mode @ ''/single_scale'')
                 (VReal single_scale_miou) iteration) (\<lambda>_.
          bnd (add_scalar fw writer (''mIOU/'' @ mode @ ''/single_scale_crop'')
                 (VReal single_scale_crop_miou) iteration) (\<lambda>_.
          bnd (add_scalar fw writer (''mIOU/'' @ mode @ ''/multi_scale_flip'')
                 (VReal ms_flip_miou) iteration) (\<lambda>_.
          bnd (add_scalar fw writer (''mIOU/'' @ mode @ ''/multi_scale_flip_crop'')
                 (VReal ms_flip_crop_miou) iteration) (\<lambda>_.
          bnd (call_str fw (Call ''tabulate'' [VList [enc_reals mious]]
                 [(''headers'', VList (map VStr headers)), (''tablefmt'', VStr ''orgtbl'')])) (\<lambda>table.
          call_none fw (Call ''logger.info'' [VObj logger, VStr table] []))))))
      | _ \<Rightarrow> throw ValueError)"

subsubsection \<open>\<open>save_best_model\<close>\<close>

definition save_best_model :: "framework \<Rightarrow> real \<Rightarrow> real \<Rightarrow> string \<Rightarrow> obj \<Rightarrow> real prog" where
  "save_best_model fw cur_score best_score models_dir net =
     (if cur_score > best_score then
        bnd (call_obj fw (Call ''net.module.state_dict'' [VObj net] [])) (\<lambda>state.
        bnd (invoke fw (Call ''dist.get_rank'' [] []) ret_int VInt) (\<lambda>rank.
        bnd (if rank = 0
             then call_none fw (Call ''torch.save''
                    [VObj state, VStr (path_join models_dir ''best_model.pth'')] [])
             else ret ()) (\<lambda>_.
        ret cur_score)))
      else ret best_score)"

subsubsection \<open>\<open>save_evaluation_log\<close>\<close>

definition eval_model ::
  "framework \<Rightarrow> obj \<Rightarrow> int \<Rightarrow> string \<Rightarrow> string \<Rightarrow> int \<times> int \<Rightarrow> string \<Rightarrow> (string list \<times> real list) prog" where
  "eval_model fw net ims_per_gpu' im_root' im_anns crop_size' false_analysis_path' =
     invoke fw (Call ''eval_model'' []
       [(''net'', VObj net), (''ims_per_gpu'', VInt ims_per_gpu'), (''im_root'', VStr im_root'),
        (''im_anns'', VStr im_anns), (''crop_size'', enc_int_pair crop_size'),
        (''false_analysis_path'', VStr false_analysis_path')]) ret_eval enc_eval"

definition next_file_name :: "framework \<Rightarrow> string \<Rightarrow> string prog" where
  "next_file_name fw dir =
     call_str fw (Call ''get_next_file_name'' [VStr dir]
       [(''prefix'', VStr ''model_final_''), (''suffix'', VStr ''.pth'')])"

definition save_evaluation_log ::
  "framework \<Rightarrow> string \<Rightarrow> obj \<Rightarrow> obj \<Rightarrow> obj \<Rightarrow> nat \<Rightarrow> real \<Rightarrow> int \<Rightarrow> int \<times> int \<Rightarrow> string \<Rightarrow> string
     \<Rightarrow> string \<Rightarrow> string \<Rightarrow> string \<Rightarrow> real prog" where
  "save_evaluation_log fw models_dir logger net writer iteration best_score ims_per_gpu'
       crop_size' log_path' im_root' val_im_anns' false_analysis_path' train_im_anns' =
     bnd (next_file_name fw log_path') (\<lambda>log_pth.
     bnd (call_none fw (Call ''logger.info'' [VObj logger,
            VStr ([CHR 0x0A] @ ''evaluating the model '' @ [CHR 0x0A] @ ''save models to ''
                    @ log_pth)] [])) (\<lambda>_.
     bnd (call_none fw (Call ''torch.cuda.empty_cache'' [] [])) (\<lambda>_.
     bnd (eval_model fw net ims_per_gpu' im_root' val_im_anns' crop_size' false_analysis_path')
       (\<lambda>(heads_val, mious_val).
     bnd (log_ious fw writer mious_val iteration heads_val logger ''val'') (\<lambda>_.
     bnd (eval_model fw net ims_per_gpu' im_root' train_im_anns' crop_size' false_analysis_path')
       (\<lambda>(heads_train, mious_train).
     bnd (log_ious fw writer mious_train iteration heads_train logger ''train'') (\<lambda>_.
     bnd (py_first mious_val) (\<lambda>cur_score.
     save_best_model fw cur_score best_score models_dir net))))))))"

subsubsection \<open>\<open>save_checkpoint\<close>\<close>

definition save_checkpoint :: "framework \<Rightarrow> string \<Rightarrow> obj \<Rightarrow> unit prog" where
  "save_checkpoint fw models_dir net =
     bnd (next_file_name fw models_dir) (\<lambda>save_pth.
     bnd (call_obj fw (Call ''net.module.state_dict'' [VObj net] [])) (\<lambda>state.
     bnd (invoke fw (Call ''dist.get_rank'' [] []) ret_int VInt) (\<lambda>rank.
     if rank = 0 then call_none fw (Call ''torch.save'' [VObj state, VStr save_pth] [])
     else ret ())))"

subsubsection \<open>\<open>train\<close>\<close>

text \<open>The objects \<open>train\<close> creates before the loop and uses inside it.\<close>

record locals =
  logger :: obj
  models_dir :: string
  writer :: obj
  net :: obj
  criteria_pre :: obj
  criteria_aux :: "obj list"
  optimizer :: obj
  scaler :: obj
  time_meter :: obj
  loss_meter :: obj
  loss_pre_meter :: obj
  loss_aux_meters :: "obj list"
  lr_scheduler :: obj

text \<open>
  \<open>sum(loss_aux)\<close>: \<open>sum\<close> starts from the integer 0 and adds the elements from the left;
  each addition is the tensors' \<open>+\<close>.
\<close>

fun sum_from :: "framework \<Rightarrow> val \<Rightarrow> obj list \<Rightarrow> val prog" where
  "sum_from fw acc [] = ret acc"
| "sum_from fw acc (x # xs) =
     bnd (call_obj fw (Call ''+'' [acc, VObj x] [])) (\<lambda>s. sum_from fw (VObj s) xs)"

definition py_sum :: "framework \<Rightarrow> obj list \<Rightarrow> val prog" where
  "py_sum fw xs = sum_from fw (VInt 0) xs"

text \<open>The body of the \<open>with amp.autocast(...)\<close> block (lines 276 to 281).\<close>

definition forward_and_loss ::
  "framework \<Rightarrow> locals \<Rightarrow> nat \<Rightarrow> obj \<Rightarrow> obj \<Rightarrow> (obj \<times> obj \<times> obj list) prog" where
  "forward_and_loss fw lc iteration img label =
     bnd (invoke fw (Call ''net'' [VObj (net lc), VObj img] []) ret_objs enc_objs) (\<lambda>outs.
     case outs of
       [] \<Rightarrow> throw ValueError
     | logits # logits_aux \<Rightarrow>
         bnd (call_obj fw (Call ''criteria_pre'' [VObj (criteria_pre lc), VObj logits, VObj label] []))
           (\<lambda>loss_pre.
         bnd (mapM (\<lambda>(criteria, logits).
                call_obj fw (Call ''criteria'' [VObj criteria, VObj logits, VObj label] []))
                (zip (criteria_aux lc) logits_aux)) (\<lambda>loss_aux.
         bnd (py_sum fw loss_aux) (\<lambda>s.
         bnd (call_obj fw (Call ''+'' [VObj loss_pre, s] [])) (\<lambda>loss.
         bnd (add_scalar fw (writer lc) ''Loss/train'' (VObj loss) iteration) (\<lambda>_.
         ret (loss, loss_pre, loss_aux)))))))"

definition tensor_item :: "framework \<Rightarrow> obj \<Rightarrow> real prog" where
  "tensor_item fw t = invoke fw (Call ''item'' [VObj t] []) ret_real VReal"

definition meter_update :: "framework \<Rightarrow> obj \<Rightarrow> real \<Rightarrow> unit prog" where
  "meter_update fw meter v = call_none fw (Call ''update'' [VObj meter, VReal v] [])"

text \<open>Lines 288 to 291.\<close>

definition update_meters :: "framework \<Rightarrow> locals \<Rightarrow> obj \<Rightarrow> obj \<Rightarrow> obj list \<Rightarrow> unit prog" where
  "update_meters fw lc loss loss_pre loss_aux =
     bnd (call_none fw (Call ''time_meter.update'' [VObj (time_meter lc)] [])) (\<lambda>_.
     bnd (tensor_item fw loss) (\<lambda>v.
     bnd (meter_update fw (loss_meter lc) v) (\<lambda>_.
     bnd (tensor_item fw loss_pre) (\<lambda>v.
     bnd (meter_update fw (loss_pre_meter lc) v) (\<lambda>_.
     bnd (mapM (\<lambda>(metric, loss). bnd (tensor_item fw loss) (\<lambda>v. meter_update fw metric v))
            (zip (loss_aux_meters lc) loss_aux)) (\<lambda>_.
     ret ()))))))"

text \<open>Lines 293 to 297.\<close>

definition print_message :: "framework \<Rightarrow> config \<Rightarrow> locals \<Rightarrow> nat \<Rightarrow> unit prog" where
  "print_message fw cfg lc iteration =
     bnd (py_mod (int iteration + 1) (message_iters cfg)) (\<lambda>r.
     if r = 0 then
       bnd (invoke fw (Call ''lr_scheduler.get_lr'' [VObj (lr_scheduler lc)] []) ret_reals enc_reals)
         (\<lambda>lr.
       bnd (py_mean lr) (\<lambda>lr.
       call_none fw (Call ''print_log_msg''
         [VInt (int iteration), VInt (max_iter cfg), VReal lr, VObj (time_meter lc),
          VObj (loss_meter lc), VObj (loss_pre_meter lc), enc_objs (loss_aux_meters lc)] [])))
     else ret ())"

text \<open>Lines 299 to 305; the result is the new \<open>best_score\<close>.\<close>

definition evaluate_and_save ::
  "framework \<Rightarrow> config \<Rightarrow> locals \<Rightarrow> string \<Rightarrow> string \<Rightarrow> string \<Rightarrow> string \<Rightarrow> string \<Rightarrow> nat \<Rightarrow> real
     \<Rightarrow> real prog" where
  "evaluate_and_save fw cfg lc log_path' im_root' val_im_anns' false_analysis_path'
       train_im_anns' iteration best_score =
     bnd (py_mod (int iteration + 1) (checkpoint_iters cfg)) (\<lambda>r.
     if r = 0 then
       bnd (save_evaluation_log fw (models_dir lc) (logger lc) (net lc) (writer lc) iteration
              best_score (ims_per_gpu cfg) (crop_size cfg) log_path' im_root' val_im_anns'
              false_analysis_path' train_im_anns') (\<lambda>best_score.
       bnd (save_checkpoint fw (models_dir lc) (net lc)) (\<lambda>_.
       ret best_score))
     else ret best_score)"

text \<open>Lines 283 to 286.\<close>

definition backward_and_step :: "framework \<Rightarrow> locals \<Rightarrow> obj \<Rightarrow> unit prog" where
  "backward_and_step fw lc loss =
     bnd (call_obj fw (Call ''scaler.scale'' [VObj (scaler lc), VObj loss] [])) (\<lambda>scaled.
     bnd (call_none fw (Call ''backward'' [VObj scaled] [])) (\<lambda>_.
     bnd (call_none fw (Call ''scaler.step'' [VObj (scaler lc), VObj (optimizer lc)] [])) (\<lambda>_.
     bnd (call_none fw (Call ''scaler.update'' [VObj (scaler lc)] [])) (\<lambda>_.
     call_none fw (Call ''torch.cuda.synchronize'' [] [])))))"

text \<open>Lines 266 to 273.\<close>

definition prepare_batch :: "framework \<Rightarrow> locals \<Rightarrow> nat \<Rightarrow> obj \<Rightarrow> obj \<Rightarrow> (obj \<times> obj) prog" where
  "prepare_batch fw lc iteration img label =
     bnd (call_obj fw (Call ''image.cuda'' [VObj img] [])) (\<lambda>img.
     bnd (call_obj fw (Call ''label.cuda'' [VObj label] [])) (\<lambda>label.
     bnd (if iteration = 0
          then call_none fw (Call ''writer.add_graph'' [VObj (writer lc), VObj (net lc), VObj img] [])
          else ret ()) (\<lambda>_.
     bnd (call_obj fw (Call ''torch.squeeze'' [VObj label, VInt 1] [])) (\<lambda>label.
     bnd (call_none fw (Call ''optimizer.zero_grad'' [VObj (optimizer lc)] [])) (\<lambda>_.
     ret (img, label))))))"

text \<open>One pass through the body of the training loop (lines 266 to 307).\<close>

definition train_iter ::
  "framework \<Rightarrow> config \<Rightarrow> locals \<Rightarrow> string \<Rightarrow> string \<Rightarrow> string \<Rightarrow> string \<Rightarrow> string \<Rightarrow> nat \<Rightarrow> real
     \<Rightarrow> obj \<times> obj \<Rightarrow> real prog" where
  "train_iter fw cfg lc log_path' im_root' val_im_anns' false_analysis_path' train_im_anns'
       iteration best_score batch =
     bnd (prepare_batch fw lc iteration (fst batch) (snd batch)) (\<lambda>(img, label).
     bnd (call_obj fw (Call ''amp.autocast'' [] [(''enabled'', VBool (use_fp16 cfg))])) (\<lambda>ctx.
     bnd (with_ctx fw ctx (\<lambda>_. forward_and_loss fw lc iteration img label))
       (\<lambda>(loss, loss_pre, loss_aux).
     bnd (backward_and_step fw lc loss) (\<lambda>_.
     bnd (update_meters fw lc loss loss_pre loss_aux) (\<lambda>_.
     bnd (print_message fw cfg lc iteration) (\<lambda>_.
     bnd (evaluate_and_save fw cfg lc log_path' im_root' val_im_anns' false_analysis_path'
            train_im_anns' iteration best_score) (\<lambda>best_score.
     bnd (call_none fw (Call ''lr_scheduler.step'' [VObj (lr_scheduler lc)] [])) (\<lambda>_.
     ret best_score))))))))"

text \<open>
  \<open>next\<close> on the data loader's iterator: it yields the next batch or signals exhaustion,
  unless it raises.
\<close>

definition loader_next :: "framework \<Rightarrow> obj \<Rightarrow> (obj \<times> obj) option \<Rightarrow> unit prog" where
  "loader_next fw it item h =
     (let c = Call ''next'' [VObj it] [] in
      case raises fw h c of
        Some e \<Rightarrow> (Inl e, [(c, Raised e)])
      | None \<Rightarrow>
          (Inr (), [(c, case item of
                          None \<Rightarrow> Exhausted
                        | Some (img, label) \<Rightarrow> Returned (VTuple [VObj img, VObj label]))]))"

text \<open>
  The \<open>for\<close> loop over \<open>enumerate(data_loader)\<close>, from iteration \<open>iteration\<close> on, with the
  batches the loader still has to yield. The result is the final \<open>best_score\<close>.
\<close>

fun train_loop ::
  "framework \<Rightarrow> config \<Rightarrow> locals \<Rightarrow> string \<Rightarrow> string \<Rightarrow> string \<Rightarrow> string \<Rightarrow> string \<Rightarrow> obj \<Rightarrow> nat
     \<Rightarrow> real \<Rightarrow> (obj \<times> obj) list \<Rightarrow> real prog" where
  "train_loop fw cfg lc log_path' im_root' val_im_anns' false_analysis_path' train_im_anns'
       it iteration best_score [] =
     bnd (loader_next fw it None) (\<lambda>_. ret best_score)"
| "train_loop fw cfg lc log_path' im_root' val_im_anns' false_analysis_path' train_im_anns'
       it iteration best_score (batch # batches) =
     bnd (loader_next fw it (Some batch)) (\<lambda>_.
     bnd (train_iter fw cfg lc log_path' im_root' val_im_anns' false_analysis_path'
            train_im_anns' iteration best_score batch) (\<lambda>best_score.
     train_loop fw cfg lc log_path' im_root' val_im_anns' false_analysis_path' train_im_anns'
       it (Suc iteration) best_score batches))"

text \<open>
  \<open>train\<close> reads the global \<open>args\<close>; it is the second parameter here. The thirteen
  parameters that \<open>__main__\<close> takes from the configuration are passed as the record \<open>cfg\<close>.
\<close>

definition train ::
  "framework \<Rightarrow> args \<Rightarrow> config \<Rightarrow> string \<Rightarrow> string \<Rightarrow> string \<Rightarrow> string \<Rightarrow> string \<Rightarrow> unit prog" where
  "train fw args cfg log_path' im_root' val_im_anns' false_analysis_path' train_im_anns' =
     bnd (call_obj fw (Call ''logging.getLogger'' [] [])) (\<lambda>logger.
     bnd (call_str fw (Call ''get_next_dir_name'' []
            [(''root_dir'', VStr (tensorboard_path args))])) (\<lambda>tensorboard_log_dir.
     bnd (call_str fw (Call ''get_next_dir_name'' []
            [(''root_dir'', VStr (models_path args))])) (\<lambda>models_dir.
     bnd (call_obj fw (Call ''SummaryWriter'' [] [(''log_dir'', VStr tensorboard_log_dir)]))
       (\<lambda>writer.
     bnd (invoke fw (Call ''dist.is_initialized'' [] []) ret_bool VBool) (\<lambda>is_dist.
     bnd (invoke fw (Call ''get_data_loader'' []
            [(''data_path'', VStr (im_root args)), (''ann_path'', VStr (train_im_anns args)),
             (''ims_per_gpu'', VInt (ims_per_gpu cfg)), (''scales'', enc_reals (scales cfg)),
             (''crop_size'', enc_int_pair (crop_size cfg)), (''max_iter'', VInt (max_iter cfg)),
             (''mode'', VStr ''train''), (''distributed'', VBool is_dist)])
            ret_batches enc_batches) (\<lambda>data_loader.
     bnd (call_obj fw (Call ''build_model'' [VStr (model args)]
            [(''is_train'', VBool True), (''is_distributed'', VBool is_dist),
             (''pretrained_model_path'', VStr (finetune_from args)),
             (''use_sync_bn'', VBool (use_sync_bn cfg))])) (\<lambda>net.
     bnd (call_obj fw (Call ''SoftDiceLoss'' [] [])) (\<lambda>criteria_pre.
     bnd (mapM (\<lambda>_. call_obj fw (Call ''SoftDiceLoss'' [] [])) (py_range (num_aux_heads cfg)))
       (\<lambda>criteria_aux.
     bnd (get_optimizer fw net (lr_start cfg) (optimizer_betas cfg) (weight_decay cfg))
       (\<lambda>optimizer.
     bnd (call_obj fw (Call ''amp.GradScaler'' [] [])) (\<lambda>scaler.
     bnd (get_meters fw (max_iter cfg) (num_aux_heads cfg)) (\<lambda>meters.
     bnd (call_obj fw (Call ''WarmupPolyLrScheduler'' [VObj optimizer]
            [(''power'', VReal 0.9), (''max_iter_'', VInt (max_iter cfg)),
             (''warmup_iter'', VInt (warmup_iters cfg)), (''warmup_ratio'', VReal 0.1),
             (''warmup'', VStr ''exp''), (''last_epoch'', VInt (- 1))])) (\<lambda>lr_scheduler.
     bnd (call_obj fw (Call ''iter'' [enc_batches data_loader] [])) (\<lambda>it.
     bnd (train_loop fw cfg
            \<lparr>logger = logger, models_dir = models_dir, writer = writer, net = net,
             criteria_pre = criteria_pre, criteria_aux = criteria_aux, optimizer = optimizer,
             scaler = scaler, time_meter = fst meters, loss_meter = fst (snd meters),
             loss_pre_meter = fst (snd (snd meters)),
             loss_aux_meters = snd (snd (snd meters)), lr_scheduler = lr_scheduler\<rparr>
            log_path' im_root' val_im_anns' false_analysis_path' train_im_anns' it 0 0
            data_loader) (\<lambda>_.
     bnd (call_none fw (Call ''writer.flush'' [VObj writer] [])) (\<lambda>_.
     call_none fw (Call ''writer.close'' [VObj writer] [])))))))))))))))))"

subsubsection \<open>\<open>parse_args\<close>\<close>



subsubsection \<open>The \<open>__main__\<close> block\<close>

text \<open>Lines 317 to 339: everything after \<open>args = parse_args()\<close>.\<close>

definition main_after_parse :: "framework \<Rightarrow> args \<Rightarrow> unit prog" where
  "main_after_parse fw args =
     bnd (call_obj fw (Call ''open'' [VStr (config_path args)] [])) (\<lambda>file.
     bnd (with_ctx fw file (\<lambda>f.
            invoke fw (Call ''yaml.load'' [VObj f] [(''Loader'', VStr ''yaml.FullLoader'')])
              ret_cfg enc_cfg)) (\<lambda>cfg.
     bnd (call_none fw (Call ''torch.cuda.empty_cache'' [] [])) (\<lambda>_.
     bnd (call_none fw (Call ''torch.cuda.set_device'' [VInt (local_rank args)] [])) (\<lambda>_.
     bnd (invoke fw (Call ''torch.cuda.device_count'' [] []) ret_int VInt) (\<lambda>world_size.
     bnd (call_none fw (Call ''dist.init_process_group'' []
            [(''backend'', VStr ''nccl''),
             (''init_method'', VStr (''tcp://127.0.0.1:'' @ str_of_int (port args))),
             (''world_size'', VInt world_size), (''rank'', VInt (local_rank args))])) (\<lambda>_.
     bnd (invoke fw (Call ''osp.exists'' [VStr (log_path args)] []) ret_bool VBool) (\<lambda>exists.
     bnd (if \<not> exists then call_none fw (Call ''os.makedirs'' [VStr (log_path args)] [])
          else ret ()) (\<lambda>_.
     bnd (call_none fw (Call ''setup_logger'' [VStr (model args @ ''-train''),
            VStr (log_path args)] [])) (\<lambda>_.
     train fw args cfg (log_path args) (im_root args) (val_im_anns args)
       (false_analysis_path args) (train_im_anns args))))))))))"


subsection \<open>Reading the log\<close>

text \<open>The entries of a log that are calls of one callee, in order.\<close>

definition calls_to :: "string \<Rightarrow> log \<Rightarrow> log" where
  "calls_to name es = filter (\<lambda>e. callee (fst e) = name) es"


text \<open>Every call a computation makes, from any history, satisfies \<open>P\<close>.\<close>

definition emits :: "(call \<Rightarrow> bool) \<Rightarrow> 'a prog \<Rightarrow> bool" where
  "emits P m \<longleftrightarrow> (\<forall>h. \<forall>e \<in> set (snd (m h)). P (fst e))"



subsection \<open>A sample run\<close>

text \<open>
  A framework in which no call raises, a model with three parameters of dimensions 4, 1
  and 3, a network with one auxiliary head, a loader with one batch, and rank 0.
\<close>

definition args_ok :: args where
  "args_ok = \<lparr>local_rank = 0, port = 44554, model = ''bisenetv2'', finetune_from = ''best.pth'',
     im_root = ''data'', train_im_anns = ''train.txt'', val_im_anns = ''val.txt'',
     log_path = ''logs'', false_analysis_path = ''fa'', tensorboard_path = ''tb'',
     models_path = ''models'', config_path = ''cfg.yaml'', amp = True\<rparr>"

definition cfg_ok :: config where
  "cfg_ok = \<lparr>ims_per_gpu = 2, scales = [1 / 2, 2], crop_size = (4, 4), max_iter = 1,
     use_sync_bn = False, num_aux_heads = 1, warmup_iters = 1, use_fp16 = True,
     message_iters = 1, checkpoint_iters = 1, lr_start = 1 / 10,
     optimizer_betas = (9 / 10, 999 / 1000), weight_decay = 1 / 100\<rparr>"

definition fw_ok :: framework where
  "fw_ok = \<lparr>raises = (\<lambda>h c. None),
     ret_obj = (\<lambda>h c. Obj (length h)),
     ret_objs = (\<lambda>h c. [Obj (length h), Obj (Suc (length h))]),
     ret_str = (\<lambda>h c. ''out''),
     ret_int = (\<lambda>h c. 0),
     ret_bool = (\<lambda>h c. True),
     ret_real = (\<lambda>h c. 1),
     ret_reals = (\<lambda>h c. [1, 3]),
     ret_params = (\<lambda>h c. [(''conv.weight'', Param 0 4), (''bn.bias'', Param 1 1),
                            (''odd'', Param 2 3)]),
     ret_batches = (\<lambda>h c. [(Obj 100, Obj 101)]),
     ret_eval = (\<lambda>h c. ([''a'', ''b'', ''c'', ''d''], [1 / 2, 1 / 3, 1 / 4, 1 / 5])),
     ret_args = (\<lambda>h c. args_ok),
     ret_cfg = (\<lambda>h c. cfg_ok)\<rparr>"

definition lc_ok :: locals where
  "lc_ok = \<lparr>logger = Obj 1, models_dir = ''models/3'', writer = Obj 2, net = Obj 3,
     criteria_pre = Obj 4, criteria_aux = [Obj 5], optimizer = Obj 6, scaler = Obj 7,
     time_meter = Obj 8, loss_meter = Obj 9, loss_pre_meter = Obj 10,
     loss_aux_meters = [Obj 11], lr_scheduler = Obj 12\<rparr>"

text \<open>The same configuration, with a checkpoint every second iteration.\<close>

definition cfg_skip :: config where
  "cfg_skip = cfg_ok\<lparr>checkpoint_iters := 2, message_iters := 2\<rparr>"



section \<open>Properties\<close>

subsection \<open>Runs of the basic computations\<close>

lemma ret_run: "ret x h = (r, es) \<longleftrightarrow> r = Inr x \<and> es = []"
  by (auto simp: ret_def)

lemma throw_run: "throw e h = (r, es) \<longleftrightarrow> r = Inl e \<and> es = []"
  by (auto simp: throw_def)

lemma bnd_run:
  "bnd m f h = (r, es) \<longleftrightarrow>
     (\<exists>e. m h = (Inl e, es) \<and> r = Inl e) \<or>
     (\<exists>x es1 es2. m h = (Inr x, es1) \<and> f x (h @ es1) = (r, es2) \<and> es = es1 @ es2)"
  by (auto simp: bnd_def split: prod.splits sum.splits)

lemma bnd_Inr:
  "bnd m f h = (Inr y, es) \<longleftrightarrow>
     (\<exists>x es1 es2. m h = (Inr x, es1) \<and> f x (h @ es1) = (Inr y, es2) \<and> es = es1 @ es2)"
  by (auto simp: bnd_def split: prod.splits sum.splits)

lemma invoke_run:
  "invoke fw c sel enc h = (r, es) \<longleftrightarrow>
     (\<exists>e. raises fw h c = Some e \<and> r = Inl e \<and> es = [(c, Raised e)]) \<or>
     (raises fw h c = None \<and> r = Inr (sel fw h c) \<and> es = [(c, Returned (enc (sel fw h c)))])"
  by (auto simp: invoke_def Let_def split: option.splits)

lemma invoke_Inr:
  "invoke fw c sel enc h = (Inr v, es) \<longleftrightarrow>
     raises fw h c = None \<and> v = sel fw h c \<and> es = [(c, Returned (enc v))]"
  by (auto simp: invoke_def Let_def split: option.splits)

lemmas call_defs = call_obj_def call_str_def call_none_def

lemma fw_ok_simps:
  "raises fw_ok h c = None"
  "ret_obj fw_ok h c = Obj (length h)"
  "ret_objs fw_ok h c = [Obj (length h), Obj (Suc (length h))]"
  "ret_str fw_ok h c = ''out''"
  "ret_int fw_ok h c = 0"
  "ret_bool fw_ok h c = True"
  "ret_real fw_ok h c = 1"
  "ret_reals fw_ok h c = [1, 3]"
  "ret_params fw_ok h c =
     [(''conv.weight'', Param 0 4), (''bn.bias'', Param 1 1), (''odd'', Param 2 3)]"
  "ret_batches fw_ok h c = [(Obj 100, Obj 101)]"
  "ret_eval fw_ok h c = ([''a'', ''b'', ''c'', ''d''], [1 / 2, 1 / 3, 1 / 4, 1 / 5])"
  "ret_args fw_ok h c = args_ok"
  "ret_cfg fw_ok h c = cfg_ok"
  by (simp_all add: fw_ok_def)

text \<open>Evaluating a computation on a given framework.\<close>

lemmas run_defs = bnd_def invoke_def ret_def throw_def Let_def call_defs

subsection \<open>Which calls a computation can make\<close>

lemma emits_ret: "emits P (ret x)"
  by (simp add: emits_def ret_def)

lemma emits_throw: "emits P (throw e)"
  by (simp add: emits_def throw_def)

lemma emits_invoke: "P c \<Longrightarrow> emits P (invoke fw c sel enc)"
  by (simp add: emits_def invoke_def Let_def split: option.splits)

lemma emitsD: "emits P m \<Longrightarrow> m h = (r, es) \<Longrightarrow> e \<in> set es \<Longrightarrow> P (fst e)"
  by (auto simp: emits_def dest!: spec [of _ h])

lemma emits_bnd:
  assumes "emits P m" and "\<And>x. emits P (f x)"
  shows "emits P (bnd m f)"
proof -
  have "P (fst e)" if e: "e \<in> set (snd (bnd m f h))" for h e
  proof -
    obtain r es where mh: "m h = (r, es)" by force
    show ?thesis
    proof (cases r)
      case (Inl x)
      with e mh show ?thesis by (auto simp: bnd_def dest: emitsD [OF assms(1)])
    next
      case (Inr x)
      obtain r2 es2 where fh: "f x (h @ es) = (r2, es2)" by force
      from e mh Inr fh show ?thesis
        by (auto simp: bnd_def dest: emitsD [OF assms(1)] emitsD [OF assms(2)])
    qed
  qed
  then show ?thesis by (auto simp: emits_def)
qed

lemma emits_mapM: "(\<And>x. emits P (f x)) \<Longrightarrow> emits P (mapM f xs)"
  by (induction xs) (auto intro!: emits_ret emits_bnd)

lemma emits_if: "emits P a \<Longrightarrow> emits P b \<Longrightarrow> emits P (if c then a else b)"
  by simp

lemma emits_case_prod: "(\<And>a b. emits P (f a b)) \<Longrightarrow> emits P (case p of (a, b) \<Rightarrow> f a b)"
  by (cases p) simp

lemma emits_case_list:
  "emits P a \<Longrightarrow> (\<And>x xs. emits P (f x xs)) \<Longrightarrow> emits P (case l of [] \<Rightarrow> a | x # xs \<Rightarrow> f x xs)"
  by (cases l) simp_all

lemma emits_with_ctx:
  assumes "P (Call ''__enter__'' [VObj ctx] [])" and "P (Call ''__exit__'' [VObj ctx] [])"
    and "\<And>v. emits P (body v)"
  shows "emits P (with_ctx fw ctx body)"
proof -
  have "P (fst e)" if e: "e \<in> set (snd (with_ctx fw ctx body h))" for h e
  proof (cases "raises fw h (Call ''__enter__'' [VObj ctx] [])")
    case (Some x)
    with e assms(1) show ?thesis by (auto simp: with_ctx_def call_defs invoke_def)
  next
    case None
    let ?v = "ret_obj fw h (Call ''__enter__'' [VObj ctx] [])"
    let ?h1 = "h @ [(Call ''__enter__'' [VObj ctx] [], Returned (VObj ?v))]"
    obtain r es1 where b: "body ?v ?h1 = (r, es1)" by force
    from e None b assms(1,2) show ?thesis
      by (auto simp: with_ctx_def call_defs invoke_def Let_def split: option.splits
          dest: emitsD [OF assms(3)])
  qed
  then show ?thesis by (auto simp: emits_def)
qed

lemma emits_mono: "emits P m \<Longrightarrow> (\<And>c. P c \<Longrightarrow> Q c) \<Longrightarrow> emits Q m"
  by (auto simp: emits_def)

lemmas emits_intros = emits_ret emits_throw emits_bnd emits_mapM emits_if emits_case_prod
  emits_case_list

lemma emits_call:
  "P c \<Longrightarrow> emits P (call_none fw c)" "P c \<Longrightarrow> emits P (call_obj fw c)"
  "P c \<Longrightarrow> emits P (call_str fw c)"
  by (simp_all add: call_defs emits_invoke)

lemma emits_prepare_batch:
  "emits (\<lambda>c. callee c \<in> {''image.cuda'', ''label.cuda'', ''writer.add_graph'',
      ''torch.squeeze'', ''optimizer.zero_grad''}) (prepare_batch fw lc i img label)"
  unfolding prepare_batch_def
  by (intro emits_intros emits_call) simp_all

lemma emits_sum_from: "emits (\<lambda>c. callee c = ''+'') (sum_from fw acc xs)"
  by (induction xs arbitrary: acc) (auto intro!: emits_intros emits_call)

lemma emits_forward_and_loss:
  "emits (\<lambda>c. callee c \<in> {''net'', ''criteria_pre'', ''criteria'', ''+'', ''writer.add_scalar''})
     (forward_and_loss fw lc i img label)"
  unfolding forward_and_loss_def py_sum_def add_scalar_def
  by (intro emits_intros emits_call emits_invoke emits_mono [OF emits_sum_from]) simp_all

lemma emits_backward_and_step:
  "emits (\<lambda>c. callee c \<in> {''scaler.scale'', ''backward'', ''scaler.step'', ''scaler.update'',
      ''torch.cuda.synchronize''}) (backward_and_step fw lc loss)"
  unfolding backward_and_step_def
  by (intro emits_intros emits_call) simp_all

lemma emits_update_meters:
  "emits (\<lambda>c. callee c \<in> {''time_meter.update'', ''item'', ''update''})
     (update_meters fw lc loss loss_pre loss_aux)"
  unfolding update_meters_def tensor_item_def meter_update_def
  by (intro emits_intros emits_call emits_invoke) simp_all

lemma emits_py_mod: "emits P (py_mod a b)"
  by (simp add: py_mod_def emits_intros)

lemma emits_py_mean: "emits P (py_mean xs)"
  by (simp add: py_mean_def emits_intros)

lemma emits_print_message:
  "emits (\<lambda>c. callee c \<in> {''lr_scheduler.get_lr'', ''print_log_msg''})
     (print_message fw cfg lc i)"
  unfolding print_message_def
  by (intro emits_intros emits_call emits_invoke emits_py_mod emits_py_mean) simp_all

subsection \<open>\<open>get_optimizer\<close>\<close>

lemma split_params_filter:
  "split_params nps (a, b) =
     (a @ filter (\<lambda>p. pdim p = 2 \<or> pdim p = 4) (map snd nps),
      b @ filter (\<lambda>p. pdim p = 1) (map snd nps))"
  by (induction nps arbitrary: a b) auto

lemma get_optimizer_ok:
  "get_optimizer fw_ok (Obj 7) (1 / 10) (9 / 10, 999 / 1000) (1 / 100) [] =
     (Inr (Obj 1),
      [(Call ''net.named_parameters'' [VObj (Obj 7)] [],
        Returned (enc_named_params
          [(''conv.weight'', Param 0 4), (''bn.bias'', Param 1 1), (''odd'', Param 2 3)])),
       (adam_call ([Param 0 4], [Param 1 1]) (1 / 10) (9 / 10, 999 / 1000) (1 / 100),
        Returned (VObj (Obj 1)))])"
  by (simp add: get_optimizer_def run_defs fw_ok_simps)

text \<open>
  C5. When \<open>get_optimizer\<close> returns, it has made one call of \<open>torch.optim.Adam\<close> and
  returns that call's result. The call receives exactly two parameter groups: the first
  holds the parameters of dimension 2 or 4 (in the model's order) and, having no
  \<open>weight_decay\<close> of its own, takes the caller's \<open>weight_decay\<close>; the second holds the
  parameters of dimension 1 and sets \<open>weight_decay\<close> to 0. Both take \<open>lr_start\<close> as \<open>lr\<close>
  and \<open>optimizer_betas\<close> as \<open>betas\<close>.
\<close>

theorem get_optimizer_groups:
  assumes "get_optimizer fw nt lr betas wd h = (Inr opt, es)"
  shows "\<exists>nps c g1 g2.
    es = [(Call ''net.named_parameters'' [VObj nt] [], Returned (enc_named_params nps)),
          (c, Returned (VObj opt))] \<and>
    callee c = ''torch.optim.Adam'' \<and> pos c = [VList [g1, g2]] \<and>
    group_params g1 = map VParam (filter (\<lambda>p. pdim p = 2 \<or> pdim p = 4) (map snd nps)) \<and>
    group_option c g1 ''weight_decay'' = Some (VReal wd) \<and>
    group_params g2 = map VParam (filter (\<lambda>p. pdim p = 1) (map snd nps)) \<and>
    group_option c g2 ''weight_decay'' = Some (VInt 0) \<and>
    group_option c g1 ''lr'' = Some (VReal lr) \<and> group_option c g2 ''lr'' = Some (VReal lr) \<and>
    group_option c g1 ''betas'' = Some (enc_real_pair betas) \<and>
    group_option c g2 ''betas'' = Some (enc_real_pair betas)"
  using assms
  by (auto simp: get_optimizer_def bnd_Inr invoke_Inr call_obj_def adam_call_def params_list_def
      split_params_filter group_params_def group_option_def)

theorem get_optimizer_groups_witness:
  "\<exists>es nps c g1 g2.
    get_optimizer fw_ok (Obj 7) (1 / 10) (9 / 10, 999 / 1000) (1 / 100) [] = (Inr (Obj 1), es) \<and>
    es = [(Call ''net.named_parameters'' [VObj (Obj 7)] [], Returned (enc_named_params nps)),
          (c, Returned (VObj (Obj 1)))] \<and>
    callee c = ''torch.optim.Adam'' \<and> pos c = [VList [g1, g2]] \<and>
    group_params g1 = map VParam (filter (\<lambda>p. pdim p = 2 \<or> pdim p = 4) (map snd nps)) \<and>
    group_option c g1 ''weight_decay'' = Some (VReal (1 / 100)) \<and>
    group_params g2 = map VParam (filter (\<lambda>p. pdim p = 1) (map snd nps)) \<and>
    group_option c g2 ''weight_decay'' = Some (VInt 0) \<and>
    group_option c g1 ''lr'' = Some (VReal (1 / 10)) \<and>
    group_option c g2 ''lr'' = Some (VReal (1 / 10)) \<and>
    group_option c g1 ''betas'' = Some (enc_real_pair (9 / 10, 999 / 1000)) \<and>
    group_option c g2 ''betas'' = Some (enc_real_pair (9 / 10, 999 / 1000))"
  using get_optimizer_groups [OF get_optimizer_ok] get_optimizer_ok by blast

text \<open>
  C8. Whatever the model's parameters are, a parameter whose dimension is not 1, 2 or 4 is
  in neither of the two parameter groups that \<open>get_optimizer\<close> passes to
  \<open>torch.optim.Adam\<close>, the only call that hands parameters to the optimizer.
\<close>

theorem get_optimizer_excludes:
  assumes "get_optimizer fw nt lr betas wd h = (r, es)"
    and "(c, out) \<in> set es" and "callee c = ''torch.optim.Adam''"
    and "pdim p \<noteq> 1" and "pdim p \<noteq> 2" and "pdim p \<noteq> 4"
  shows "\<exists>g1 g2. pos c = [VList [g1, g2]] \<and> VParam p \<notin> set (group_params g1) \<and>
           VParam p \<notin> set (group_params g2)"
  using assms
  by (auto simp: get_optimizer_def bnd_run invoke_run call_obj_def adam_call_def params_list_def
      split_params_filter group_params_def)

theorem get_optimizer_excludes_witness:
  "\<exists>g1 g2.
     (adam_call ([Param 0 4], [Param 1 1]) (1 / 10) (9 / 10, 999 / 1000) (1 / 100),
      Returned (VObj (Obj 1)))
       \<in> set (snd (get_optimizer fw_ok (Obj 7) (1 / 10) (9 / 10, 999 / 1000) (1 / 100) [])) \<and>
     pdim (Param 2 3) = 3 \<and>
     pos (adam_call ([Param 0 4], [Param 1 1]) (1 / 10) (9 / 10, 999 / 1000) (1 / 100))
       = [VList [g1, g2]] \<and>
     VParam (Param 2 3) \<notin> set (group_params g1) \<and> VParam (Param 2 3) \<notin> set (group_params g2)"
proof -
  have mem: "(adam_call ([Param 0 4], [Param 1 1]) (1 / 10) (9 / 10, 999 / 1000) (1 / 100),
      Returned (VObj (Obj 1)))
       \<in> set (snd (get_optimizer fw_ok (Obj 7) (1 / 10) (9 / 10, 999 / 1000) (1 / 100) []))"
    by (simp add: get_optimizer_ok)
  have "\<exists>g1 g2. pos (adam_call ([Param 0 4], [Param 1 1]) (1 / 10) (9 / 10, 999 / 1000) (1 / 100))
       = [VList [g1, g2]] \<and>
     VParam (Param 2 3) \<notin> set (group_params g1) \<and> VParam (Param 2 3) \<notin> set (group_params g2)"
    by (rule get_optimizer_excludes [OF get_optimizer_ok])
      (simp_all add: get_optimizer_ok adam_call_def)
  with mem show ?thesis by auto
qed

subsection \<open>\<open>save_checkpoint\<close>\<close>

lemma save_checkpoint_ok:
  "save_checkpoint fw_ok ''models/3'' (Obj 7) [] =
     (Inr (),
      [(Call ''get_next_file_name'' [VStr ''models/3'']
          [(''prefix'', VStr ''model_final_''), (''suffix'', VStr ''.pth'')],
        Returned (VStr ''out'')),
       (Call ''net.module.state_dict'' [VObj (Obj 7)] [], Returned (VObj (Obj 1))),
       (Call ''dist.get_rank'' [] [], Returned (VInt 0)),
       (Call ''torch.save'' [VObj (Obj 1), VStr ''out''] [], Returned VNone)])"
  by (simp add: save_checkpoint_def next_file_name_def run_defs fw_ok_simps)

text \<open>
  C2. When \<open>save_checkpoint\<close> returns, it has asked \<open>get_next_file_name\<close> for a path in
  \<open>models_dir\<close> with prefix \<open>model_final_\<close> and suffix \<open>.pth\<close>, taken
  \<open>net.module.state_dict()\<close>, asked for the distributed rank, and, exactly when the rank
  is 0, saved that state to that path. However the run ends, a call of \<open>torch.save\<close> in it
  is preceded by a rank of 0 and writes that state to that path.
\<close>

theorem save_checkpoint_writes:
  assumes "save_checkpoint fw mdir nt h = (r, es)"
  shows "(r = Inr () \<longrightarrow>
           (\<exists>save_pth state rank.
              es = [(Call ''get_next_file_name'' [VStr mdir]
                       [(''prefix'', VStr ''model_final_''), (''suffix'', VStr ''.pth'')],
                     Returned (VStr save_pth)),
                    (Call ''net.module.state_dict'' [VObj nt] [], Returned (VObj state)),
                    (Call ''dist.get_rank'' [] [], Returned (VInt rank))]
                   @ (if rank = 0
                      then [(Call ''torch.save'' [VObj state, VStr save_pth] [], Returned VNone)]
                      else []))) \<and>
         (\<forall>c out. (c, out) \<in> set es \<and> callee c = ''torch.save'' \<longrightarrow>
            (\<exists>save_pth state.
               es = [(Call ''get_next_file_name'' [VStr mdir]
                        [(''prefix'', VStr ''model_final_''), (''suffix'', VStr ''.pth'')],
                      Returned (VStr save_pth)),
                     (Call ''net.module.state_dict'' [VObj nt] [], Returned (VObj state)),
                     (Call ''dist.get_rank'' [] [], Returned (VInt 0)),
                     (Call ''torch.save'' [VObj state, VStr save_pth] [], out)]))"
  using assms
  by (auto simp: save_checkpoint_def next_file_name_def bnd_run invoke_run call_defs ret_run
      split: if_splits)

theorem save_checkpoint_writes_witness:
  "\<exists>es save_pth state rank.
     save_checkpoint fw_ok ''models/3'' (Obj 7) [] = (Inr (), es) \<and>
     (Call ''torch.save'' [VObj (Obj 1), VStr ''out''] [], Returned VNone) \<in> set es \<and>
     es = [(Call ''get_next_file_name'' [VStr ''models/3'']
              [(''prefix'', VStr ''model_final_''), (''suffix'', VStr ''.pth'')],
            Returned (VStr save_pth)),
           (Call ''net.module.state_dict'' [VObj (Obj 7)] [], Returned (VObj state)),
           (Call ''dist.get_rank'' [] [], Returned (VInt rank))]
          @ (if rank = 0
             then [(Call ''torch.save'' [VObj state, VStr save_pth] [], Returned VNone)]
             else [])"
  using save_checkpoint_writes [OF save_checkpoint_ok] save_checkpoint_ok by auto

subsection \<open>The flag \<open>--amp\<close>\<close>

text \<open>
  C10. Everything the script does after \<open>args = parse_args()\<close> is the same whatever the
  value of \<open>args.amp\<close>: the same calls with the same arguments, the same outcome.
\<close>

theorem amp_flag_unused: "main_after_parse fw (a\<lparr>amp := b\<rparr>) = main_after_parse fw a"
  by (simp add: main_after_parse_def train_def cong: if_cong)

subsection \<open>The body of the training loop\<close>

lemma call_Inr:
  "call_none fw c h = (Inr u, es) \<longleftrightarrow> raises fw h c = None \<and> es = [(c, Returned VNone)]"
  "call_obj fw c h = (Inr x, es) \<longleftrightarrow>
     raises fw h c = None \<and> x = ret_obj fw h c \<and> es = [(c, Returned (VObj x))]"
  "call_str fw c h = (Inr s, es) \<longleftrightarrow>
     raises fw h c = None \<and> s = ret_str fw h c \<and> es = [(c, Returned (VStr s))]"
  by (auto simp: call_defs invoke_Inr)

lemma with_ctx_Inr:
  "with_ctx fw ctx body h = (Inr x, es) \<longleftrightarrow>
     (\<exists>v es1. raises fw h (Call ''__enter__'' [VObj ctx] []) = None \<and>
        v = ret_obj fw h (Call ''__enter__'' [VObj ctx] []) \<and>
        body v (h @ [(Call ''__enter__'' [VObj ctx] [], Returned (VObj v))]) = (Inr x, es1) \<and>
        raises fw (h @ (Call ''__enter__'' [VObj ctx] [], Returned (VObj v)) # es1)
          (Call ''__exit__'' [VObj ctx] []) = None \<and>
        es = (Call ''__enter__'' [VObj ctx] [], Returned (VObj v)) # es1
               @ [(Call ''__exit__'' [VObj ctx] [], Returned VNone)])"
  by (auto simp: with_ctx_def call_defs invoke_def Let_def split: option.splits prod.splits sum.splits)

lemma backward_and_step_Inr:
  assumes "backward_and_step fw lc loss h = (Inr u, es)"
  shows "\<exists>scaled. es =
     [(Call ''scaler.scale'' [VObj (scaler lc), VObj loss] [], Returned (VObj scaled)),
      (Call ''backward'' [VObj scaled] [], Returned VNone),
      (Call ''scaler.step'' [VObj (scaler lc), VObj (optimizer lc)] [], Returned VNone),
      (Call ''scaler.update'' [VObj (scaler lc)] [], Returned VNone),
      (Call ''torch.cuda.synchronize'' [] [], Returned VNone)]"
  using assms by (auto simp: backward_and_step_def bnd_Inr call_Inr)

lemma train_iter_Inr:
  assumes "train_iter fw cfg lc lp ir va fa ta i best batch h = (Inr b, es)"
  shows "\<exists>img label es1 ctx v h3 es3 loss loss_pre loss_aux es4 h4 es5 h5 es6 h6 es7 h7.
    prepare_batch fw lc i (fst batch) (snd batch) h = (Inr (img, label), es1) \<and>
    forward_and_loss fw lc i img label h3 = (Inr (loss, loss_pre, loss_aux), es3) \<and>
    backward_and_step fw lc loss h4 = (Inr (), es4) \<and>
    update_meters fw lc loss loss_pre loss_aux h5 = (Inr (), es5) \<and>
    print_message fw cfg lc i h6 = (Inr (), es6) \<and>
    evaluate_and_save fw cfg lc lp ir va fa ta i best h7 = (Inr b, es7) \<and>
    es = es1 @ [(Call ''amp.autocast'' [] [(''enabled'', VBool (use_fp16 cfg))],
                 Returned (VObj ctx)),
                (Call ''__enter__'' [VObj ctx] [], Returned (VObj v))] @ es3
           @ [(Call ''__exit__'' [VObj ctx] [], Returned VNone)] @ es4 @ es5 @ es6 @ es7
           @ [(Call ''lr_scheduler.step'' [VObj (lr_scheduler lc)] [], Returned VNone)]"
  using assms
  apply (simp add: train_iter_def bnd_Inr call_Inr with_ctx_Inr ret_run split_paired_Ex)
  apply (elim exE conjE)
  apply (intro exI conjI)
        apply assumption+
  apply simp
  done


lemma emits_save_best_model:
  "emits (\<lambda>c. callee c \<in> {''net.module.state_dict'', ''dist.get_rank'', ''torch.save''})
     (save_best_model fw cur best mdir nt)"
  unfolding save_best_model_def
  by (intro emits_intros emits_call emits_invoke) simp_all

lemma emits_save_checkpoint:
  "emits (\<lambda>c. callee c \<in> {''get_next_file_name'', ''net.module.state_dict'', ''dist.get_rank'',
      ''torch.save''}) (save_checkpoint fw mdir nt)"
  unfolding save_checkpoint_def next_file_name_def
  by (intro emits_intros emits_call emits_invoke) simp_all

lemma emits_log_ious:
  "emits (\<lambda>c. callee c \<in> {''writer.add_scalar'', ''tabulate'', ''logger.info''})
     (log_ious fw wr mious i headers lg mode)"
  unfolding log_ious_def add_scalar_def
  by (intro emits_intros emits_call emits_invoke) simp_all

lemma emits_py_first: "emits P (py_first xs)"
  by (simp add: py_first_def emits_intros split: list.splits)

lemma emits_save_evaluation_log:
  "emits (\<lambda>c. callee c \<in> {''get_next_file_name'', ''logger.info'', ''torch.cuda.empty_cache'',
      ''eval_model'', ''writer.add_scalar'', ''tabulate'', ''net.module.state_dict'',
      ''dist.get_rank'', ''torch.save''})
     (save_evaluation_log fw mdir lg nt wr i best ipg cs lp ir va fa ta)"
  unfolding save_evaluation_log_def next_file_name_def eval_model_def
  by (intro emits_intros emits_call emits_invoke emits_py_first
      emits_mono [OF emits_log_ious] emits_mono [OF emits_save_best_model]) auto

lemma emits_evaluate_and_save:
  "emits (\<lambda>c. callee c \<in> {''get_next_file_name'', ''logger.info'', ''torch.cuda.empty_cache'',
      ''eval_model'', ''writer.add_scalar'', ''tabulate'', ''net.module.state_dict'',
      ''dist.get_rank'', ''torch.save''})
     (evaluate_and_save fw cfg lc lp ir va fa ta i best)"
  unfolding evaluate_and_save_def
  by (intro emits_intros emits_py_mod emits_save_evaluation_log
      emits_mono [OF emits_save_checkpoint]) auto

lemma evaluate_and_save_skip:
  "\<not> checkpoint_iters cfg dvd int i + 1 \<Longrightarrow>
     emits (\<lambda>c. False) (evaluate_and_save fw cfg lc lp ir va fa ta i best)"
  by (auto simp: evaluate_and_save_def py_mod_def emits_def bnd_def throw_def ret_def
      dvd_eq_mod_eq_0)

lemma print_message_skip:
  "\<not> message_iters cfg dvd int i + 1 \<Longrightarrow> emits (\<lambda>c. False) (print_message fw cfg lc i)"
  by (auto simp: print_message_def py_mod_def emits_def bnd_def throw_def ret_def
      dvd_eq_mod_eq_0)

lemma evaluate_and_save_Inr:
  assumes "evaluate_and_save fw cfg lc lp ir va fa ta i best h = (Inr b, es)"
  shows "if checkpoint_iters cfg dvd int i + 1
         then \<exists>es1 es2.
           save_evaluation_log fw (models_dir lc) (logger lc) (net lc) (writer lc) i best
             (ims_per_gpu cfg) (crop_size cfg) lp ir va fa ta h = (Inr b, es1) \<and>
           save_checkpoint fw (models_dir lc) (net lc) (h @ es1) = (Inr (), es2) \<and>
           es = es1 @ es2
         else es = [] \<and> b = best"
  using assms
  by (auto simp: evaluate_and_save_def py_mod_def bnd_Inr ret_run throw_run dvd_eq_mod_eq_0
      split: if_splits)

lemma foldl_add_sum_list: "foldl (+) a xs = a + sum_list (xs :: real list)"
  by (induction xs arbitrary: a) auto

lemma print_message_Inr:
  assumes "print_message fw cfg lc i h = (Inr u, es)"
  shows "if message_iters cfg dvd int i + 1
         then \<exists>lrs. lrs \<noteq> [] \<and> es =
           [(Call ''lr_scheduler.get_lr'' [VObj (lr_scheduler lc)] [], Returned (enc_reals lrs)),
            (Call ''print_log_msg''
               [VInt (int i), VInt (max_iter cfg), VReal (sum_list lrs / real (length lrs)),
                VObj (time_meter lc), VObj (loss_meter lc), VObj (loss_pre_meter lc),
                enc_objs (loss_aux_meters lc)] [], Returned VNone)]
         else es = []"
  using assms
  by (auto simp: print_message_def py_mod_def py_mean_def bnd_Inr ret_run throw_run
      invoke_Inr call_Inr dvd_eq_mod_eq_0 foldl_add_sum_list split: if_splits)


lemma emits_train_iter:
  assumes P: "\<And>c. callee c \<in> {''image.cuda'', ''label.cuda'', ''writer.add_graph'',
      ''torch.squeeze'', ''optimizer.zero_grad'', ''amp.autocast'', ''__enter__'', ''__exit__'',
      ''net'', ''criteria_pre'', ''criteria'', ''+'', ''writer.add_scalar'', ''scaler.scale'',
      ''backward'', ''scaler.step'', ''scaler.update'', ''torch.cuda.synchronize'',
      ''time_meter.update'', ''item'', ''update'', ''lr_scheduler.step''} \<Longrightarrow> P c"
    and msg: "emits P (print_message fw cfg lc i)"
    and evl: "emits P (evaluate_and_save fw cfg lc lp ir va fa ta i best)"
  shows "emits P (train_iter fw cfg lc lp ir va fa ta i best batch)"
  unfolding train_iter_def
  by (intro emits_intros emits_call emits_with_ctx msg evl
      emits_mono [OF emits_prepare_batch] emits_mono [OF emits_forward_and_loss]
      emits_mono [OF emits_backward_and_step] emits_mono [OF emits_update_meters] P)
    auto

lemmas block_defs = train_iter_def prepare_batch_def forward_and_loss_def py_sum_def
  add_scalar_def backward_and_step_def update_meters_def tensor_item_def meter_update_def
  print_message_def py_mod_def py_mean_def evaluate_and_save_def save_evaluation_log_def
  next_file_name_def eval_model_def log_ious_def py_first_def save_best_model_def
  save_checkpoint_def with_ctx_def path_join_def enc_objs_def enc_reals_def enc_eval_def
  enc_int_pair_def

lemma train_iter_ok:
  "fst (train_iter fw_ok cfg_ok lc_ok ''logs'' ''data'' ''val.txt'' ''fa'' ''train.txt'' 0 0
          (Obj 100, Obj 101) []) = Inr (1 / 2)"
  by (simp add: block_defs run_defs fw_ok_simps lc_ok_def cfg_ok_def)

lemma emits_disjoint:
  assumes "emits (\<lambda>c. callee c \<in> S) m" and "m h = (r, es)" and "S \<inter> T = {}"
  shows "\<forall>e \<in> set es. callee (fst e) \<notin> T"
    and "filter (\<lambda>e. callee (fst e) \<in> T) es = []"
  using assms by (auto simp: filter_empty_conv dest: emitsD)

lemma emits_calls_to_empty:
  "emits (\<lambda>c. callee c \<in> S) m \<Longrightarrow> m h = (r, es) \<Longrightarrow> n \<notin> S \<Longrightarrow> calls_to n es = []"
  by (auto simp: calls_to_def filter_empty_conv dest: emitsD)

lemma emits_subset_filter:
  "emits (\<lambda>c. callee c \<in> S) m \<Longrightarrow> m h = (r, es) \<Longrightarrow> S \<subseteq> T \<Longrightarrow>
     filter (\<lambda>e. callee (fst e) \<in> T) es = es"
  by (auto simp: filter_id_conv dest: emitsD)

lemma calls_to_simps:
  "calls_to n [] = []"
  "calls_to n (x # xs) = (if callee (fst x) = n then x # calls_to n xs else calls_to n xs)"
  "calls_to n (xs @ ys) = calls_to n xs @ calls_to n ys"
  by (simp_all add: calls_to_def)

lemma save_best_model_Inr:
  assumes "save_best_model fw cur_score best_score mdir nt h = (Inr r, es)"
  shows "r = max cur_score best_score \<and>
     (\<exists>state rank.
        es = (if cur_score > best_score
              then [(Call ''net.module.state_dict'' [VObj nt] [], Returned (VObj state)),
                    (Call ''dist.get_rank'' [] [], Returned (VInt rank))]
                   @ (if rank = 0
                      then [(Call ''torch.save''
                               [VObj state, VStr (path_join mdir ''best_model.pth'')] [],
                             Returned VNone)]
                      else [])
              else []))"
  using assms
  by (auto simp: save_best_model_def bnd_Inr invoke_Inr call_Inr ret_run split: if_splits)

lemma save_checkpoint_Inr:
  assumes "save_checkpoint fw mdir nt h = (Inr u, es)"
  shows "\<exists>save_pth state rank.
     es = [(Call ''get_next_file_name'' [VStr mdir]
              [(''prefix'', VStr ''model_final_''), (''suffix'', VStr ''.pth'')],
            Returned (VStr save_pth)),
           (Call ''net.module.state_dict'' [VObj nt] [], Returned (VObj state)),
           (Call ''dist.get_rank'' [] [], Returned (VInt rank))]
          @ (if rank = 0
             then [(Call ''torch.save'' [VObj state, VStr save_pth] [], Returned VNone)]
             else [])"
  using assms
  by (auto simp: save_checkpoint_def next_file_name_def bnd_Inr invoke_Inr call_Inr ret_run
      split: if_splits)

lemma py_first_Inr: "py_first xs h = (Inr x, es) \<longleftrightarrow> xs \<noteq> [] \<and> x = hd xs \<and> es = []"
  by (cases xs) (auto simp: py_first_def ret_run throw_run)

lemma log_ious_Inr:
  assumes "log_ious fw wr mious i headers lg mode h = (Inr u, es)"
  shows "\<exists>v1 v2 v3 v4 table. mious = [v1, v2, v3, v4] \<and>
     es = [(Call ''writer.add_scalar''
              [VObj wr, VStr (''mIOU/'' @ mode @ ''/single_scale''), VReal v1, VInt (int i)] [],
            Returned VNone),
           (Call ''writer.add_scalar''
              [VObj wr, VStr (''mIOU/'' @ mode @ ''/single_scale_crop''), VReal v2, VInt (int i)] [],
            Returned VNone),
           (Call ''writer.add_scalar''
              [VObj wr, VStr (''mIOU/'' @ mode @ ''/multi_scale_flip''), VReal v3, VInt (int i)] [],
            Returned VNone),
           (Call ''writer.add_scalar''
              [VObj wr, VStr (''mIOU/'' @ mode @ ''/multi_scale_flip_crop''), VReal v4,
               VInt (int i)] [],
            Returned VNone),
           (Call ''tabulate'' [VList [enc_reals mious]]
              [(''headers'', VList (map VStr headers)), (''tablefmt'', VStr ''orgtbl'')],
            Returned (VStr table)),
           (Call ''logger.info'' [VObj lg, VStr table] [], Returned VNone)]"
  using assms
  by (auto simp: log_ious_def add_scalar_def bnd_Inr call_Inr throw_run split: list.splits)

lemma eval_model_Inr:
  "eval_model fw nt ipg ir an cs fa h = (Inr res, es) \<Longrightarrow>
     es = [(Call ''eval_model'' []
              [(''net'', VObj nt), (''ims_per_gpu'', VInt ipg), (''im_root'', VStr ir),
               (''im_anns'', VStr an), (''crop_size'', enc_int_pair cs),
               (''false_analysis_path'', VStr fa)],
            Returned (enc_eval res))]"
  by (simp add: eval_model_def invoke_Inr)

lemma save_evaluation_log_blocks:
  assumes "save_evaluation_log fw mdir lg nt wr i best ipg cs lp ir va fa ta h = (Inr r, es)"
  shows "\<exists>log_pth e1 h2 e2 h3 e3 h4 heads_val mious_val e4 h5 e5 h6 heads_train mious_train
      e6 h7 e7 h8 e8.
    next_file_name fw lp h = (Inr log_pth, e1) \<and>
    call_none fw (Call ''logger.info'' [VObj lg,
            VStr ([CHR 0x0A] @ ''evaluating the model '' @ [CHR 0x0A] @ ''save models to ''
                    @ log_pth)] []) h2 = (Inr (), e2) \<and>
    call_none fw (Call ''torch.cuda.empty_cache'' [] []) h3 = (Inr (), e3) \<and>
    eval_model fw nt ipg ir va cs fa h4 = (Inr (heads_val, mious_val), e4) \<and>
    log_ious fw wr mious_val i heads_val lg ''val'' h5 = (Inr (), e5) \<and>
    eval_model fw nt ipg ir ta cs fa h6 = (Inr (heads_train, mious_train), e6) \<and>
    log_ious fw wr mious_train i heads_train lg ''train'' h7 = (Inr (), e7) \<and>
    mious_val \<noteq> [] \<and>
    save_best_model fw (hd mious_val) best mdir nt h8 = (Inr r, e8) \<and>
    es = e1 @ e2 @ e3 @ e4 @ e5 @ e6 @ e7 @ e8"
proof -
  from assms obtain log_pth e1 k1 where
    r1: "next_file_name fw lp h = (Inr log_pth, e1)" and
    k1: "bnd (call_none fw (Call ''logger.info'' [VObj lg,
            VStr ([CHR 0x0A] @ ''evaluating the model '' @ [CHR 0x0A] @ ''save models to ''
                    @ log_pth)] [])) (\<lambda>_.
     bnd (call_none fw (Call ''torch.cuda.empty_cache'' [] [])) (\<lambda>_.
     bnd (eval_model fw nt ipg ir va cs fa)
       (\<lambda>(heads_val, mious_val).
     bnd (log_ious fw wr mious_val i heads_val lg ''val'') (\<lambda>_.
     bnd (eval_model fw nt ipg ir ta cs fa)
       (\<lambda>(heads_train, mious_train).
     bnd (log_ious fw wr mious_train i heads_train lg ''train'') (\<lambda>_.
     bnd (py_first mious_val) (\<lambda>cur_score.
     save_best_model fw cur_score best mdir nt))))))) (h @ e1) = (Inr r, k1)" and
    es1: "es = e1 @ k1"
    unfolding save_evaluation_log_def bnd_Inr by blast
  from k1 obtain e2 e3 p4 e4 k4 where
    r2: "call_none fw (Call ''logger.info'' [VObj lg,
            VStr ([CHR 0x0A] @ ''evaluating the model '' @ [CHR 0x0A] @ ''save models to ''
                    @ log_pth)] []) (h @ e1) = (Inr (), e2)" and
    r3: "call_none fw (Call ''torch.cuda.empty_cache'' [] []) (h @ e1 @ e2) = (Inr (), e3)" and
    r4: "eval_model fw nt ipg ir va cs fa (h @ e1 @ e2 @ e3) = (Inr p4, e4)" and
    k4: "(case p4 of (heads_val, mious_val) \<Rightarrow>
     bnd (log_ious fw wr mious_val i heads_val lg ''val'') (\<lambda>_.
     bnd (eval_model fw nt ipg ir ta cs fa)
       (\<lambda>(heads_train, mious_train).
     bnd (log_ious fw wr mious_train i heads_train lg ''train'') (\<lambda>_.
     bnd (py_first mious_val) (\<lambda>cur_score.
     save_best_model fw cur_score best mdir nt))))) (h @ e1 @ e2 @ e3 @ e4) = (Inr r, k4)" and
    es2: "k1 = e2 @ e3 @ e4 @ k4"
    unfolding bnd_Inr by (auto simp: append.assoc)
  obtain heads_val mious_val where p4: "p4 = (heads_val, mious_val)" by force
  from k4 [unfolded p4 prod.case] obtain e5 p6 e6 k6 h6 h7 where
    r5: "log_ious fw wr mious_val i heads_val lg ''val'' (h @ e1 @ e2 @ e3 @ e4) = (Inr (), e5)" and
    r6: "eval_model fw nt ipg ir ta cs fa h6 = (Inr p6, e6)" and
    k6: "(case p6 of (heads_train, mious_train) \<Rightarrow>
     bnd (log_ious fw wr mious_train i heads_train lg ''train'') (\<lambda>_.
     bnd (py_first mious_val) (\<lambda>cur_score.
     save_best_model fw cur_score best mdir nt))) h7 = (Inr r, k6)" and
    es3: "k4 = e5 @ e6 @ k6"
    unfolding bnd_Inr by (auto simp: append.assoc)
  obtain heads_train mious_train where p6: "p6 = (heads_train, mious_train)" by force
  from k6 [unfolded p6 prod.case] obtain e7 e8 h8 where
    r7: "log_ious fw wr mious_train i heads_train lg ''train'' h7 = (Inr (), e7)" and
    ne: "mious_val \<noteq> []" and
    r8: "save_best_model fw (hd mious_val) best mdir nt h8 = (Inr r, e8)" and
    es4: "k6 = e7 @ e8"
    unfolding bnd_Inr py_first_Inr by auto
  from r1 r2 r3 r4 [unfolded p4] r5 r6 [unfolded p6] r7 ne r8 es1 es2 es3 es4
  show ?thesis by (simp only: append.assoc) blast
qed

lemma save_evaluation_log_trace:
  assumes "save_evaluation_log fw mdir lg nt wr i best ipg cs lp ir va fa ta h = (Inr r, es)"
  shows "\<exists>log_pth heads_val v1 v2 v3 v4 table_val heads_train t1 t2 t3 t4 table_train state rank.
    r = max v1 best \<and>
    es = [(Call ''get_next_file_name'' [VStr lp]
                 [(''prefix'', VStr ''model_final_''), (''suffix'', VStr ''.pth'')],
               Returned (VStr log_pth)),
              (Call ''logger.info'' [VObj lg,
                 VStr ([CHR 0x0A] @ ''evaluating the model '' @ [CHR 0x0A] @ ''save models to ''
                         @ log_pth)] [], Returned VNone),
              (Call ''torch.cuda.empty_cache'' [] [], Returned VNone),
              (Call ''eval_model'' []
                 [(''net'', VObj nt), (''ims_per_gpu'', VInt ipg), (''im_root'', VStr ir),
                  (''im_anns'', VStr va), (''crop_size'', enc_int_pair cs),
                  (''false_analysis_path'', VStr fa)],
               Returned (enc_eval (heads_val, [v1, v2, v3, v4]))),
              (Call ''writer.add_scalar''
                 [VObj wr, VStr ''mIOU/val/single_scale'', VReal v1, VInt (int i)] [],
               Returned VNone),
              (Call ''writer.add_scalar''
                 [VObj wr, VStr ''mIOU/val/single_scale_crop'', VReal v2, VInt (int i)] [],
               Returned VNone),
              (Call ''writer.add_scalar''
                 [VObj wr, VStr ''mIOU/val/multi_scale_flip'', VReal v3, VInt (int i)] [],
               Returned VNone),
              (Call ''writer.add_scalar''
                 [VObj wr, VStr ''mIOU/val/multi_scale_flip_crop'', VReal v4, VInt (int i)] [],
               Returned VNone),
              (Call ''tabulate'' [VList [enc_reals [v1, v2, v3, v4]]]
                 [(''headers'', VList (map VStr heads_val)), (''tablefmt'', VStr ''orgtbl'')],
               Returned (VStr table_val)),
              (Call ''logger.info'' [VObj lg, VStr table_val] [], Returned VNone),
              (Call ''eval_model'' []
                 [(''net'', VObj nt), (''ims_per_gpu'', VInt ipg), (''im_root'', VStr ir),
                  (''im_anns'', VStr ta), (''crop_size'', enc_int_pair cs),
                  (''false_analysis_path'', VStr fa)],
               Returned (enc_eval (heads_train, [t1, t2, t3, t4]))),
              (Call ''writer.add_scalar''
                 [VObj wr, VStr ''mIOU/train/single_scale'', VReal t1, VInt (int i)] [],
               Returned VNone),
              (Call ''writer.add_scalar''
                 [VObj wr, VStr ''mIOU/train/single_scale_crop'', VReal t2, VInt (int i)] [],
               Returned VNone),
              (Call ''writer.add_scalar''
                 [VObj wr, VStr ''mIOU/train/multi_scale_flip'', VReal t3, VInt (int i)] [],
               Returned VNone),
              (Call ''writer.add_scalar''
                 [VObj wr, VStr ''mIOU/train/multi_scale_flip_crop'', VReal t4, VInt (int i)] [],
               Returned VNone),
              (Call ''tabulate'' [VList [enc_reals [t1, t2, t3, t4]]]
                 [(''headers'', VList (map VStr heads_train)), (''tablefmt'', VStr ''orgtbl'')],
               Returned (VStr table_train)),
              (Call ''logger.info'' [VObj lg, VStr table_train] [], Returned VNone)]
             @ (if v1 > best
                then [(Call ''net.module.state_dict'' [VObj nt] [], Returned (VObj state)),
                      (Call ''dist.get_rank'' [] [], Returned (VInt rank))]
                     @ (if rank = 0
                        then [(Call ''torch.save''
                                 [VObj state, VStr (path_join mdir ''best_model.pth'')] [],
                               Returned VNone)]
                        else [])
                else [])"
proof -
  from save_evaluation_log_blocks [OF assms] obtain log_pth e1 h2 e2 h3 e3 h4 heads_val
      mious_val e4 h5 e5 h6 heads_train mious_train e6 h7 e7 h8 e8 where
    r1: "next_file_name fw lp h = (Inr log_pth, e1)" and
    r2: "call_none fw (Call ''logger.info'' [VObj lg,
            VStr ([CHR 0x0A] @ ''evaluating the model '' @ [CHR 0x0A] @ ''save models to ''
                    @ log_pth)] []) h2 = (Inr (), e2)" and
    r3: "call_none fw (Call ''torch.cuda.empty_cache'' [] []) h3 = (Inr (), e3)" and
    r4: "eval_model fw nt ipg ir va cs fa h4 = (Inr (heads_val, mious_val), e4)" and
    r5: "log_ious fw wr mious_val i heads_val lg ''val'' h5 = (Inr (), e5)" and
    r6: "eval_model fw nt ipg ir ta cs fa h6 = (Inr (heads_train, mious_train), e6)" and
    r7: "log_ious fw wr mious_train i heads_train lg ''train'' h7 = (Inr (), e7)" and
    r8: "save_best_model fw (hd mious_val) best mdir nt h8 = (Inr r, e8)" and
    es: "es = e1 @ e2 @ e3 @ e4 @ e5 @ e6 @ e7 @ e8"
    by blast
  from r1 have e1: "e1 = [(Call ''get_next_file_name'' [VStr lp]
                 [(''prefix'', VStr ''model_final_''), (''suffix'', VStr ''.pth'')],
               Returned (VStr log_pth))]"
    by (simp add: next_file_name_def call_Inr)
  from r2 have e2: "e2 = [(Call ''logger.info'' [VObj lg,
                 VStr ([CHR 0x0A] @ ''evaluating the model '' @ [CHR 0x0A] @ ''save models to ''
                         @ log_pth)] [], Returned VNone)]"
    by (simp add: call_Inr)
  from r3 have e3: "e3 = [(Call ''torch.cuda.empty_cache'' [] [], Returned VNone)]"
    by (simp add: call_Inr)
  note e4 = eval_model_Inr [OF r4]
  note e6 = eval_model_Inr [OF r6]
  from log_ious_Inr [OF r5] obtain v1 v2 v3 v4 table_val where
    mv: "mious_val = [v1, v2, v3, v4]" and
    e5: "e5 = [(Call ''writer.add_scalar''
                 [VObj wr, VStr (''mIOU/'' @ ''val'' @ ''/single_scale''), VReal v1, VInt (int i)] [],
               Returned VNone),
              (Call ''writer.add_scalar''
                 [VObj wr, VStr (''mIOU/'' @ ''val'' @ ''/single_scale_crop''), VReal v2,
                  VInt (int i)] [],
               Returned VNone),
              (Call ''writer.add_scalar''
                 [VObj wr, VStr (''mIOU/'' @ ''val'' @ ''/multi_scale_flip''), VReal v3,
                  VInt (int i)] [],
               Returned VNone),
              (Call ''writer.add_scalar''
                 [VObj wr, VStr (''mIOU/'' @ ''val'' @ ''/multi_scale_flip_crop''), VReal v4,
                  VInt (int i)] [],
               Returned VNone),
              (Call ''tabulate'' [VList [enc_reals mious_val]]
                 [(''headers'', VList (map VStr heads_val)), (''tablefmt'', VStr ''orgtbl'')],
               Returned (VStr table_val)),
              (Call ''logger.info'' [VObj lg, VStr table_val] [], Returned VNone)]"
    by blast
  from log_ious_Inr [OF r7] obtain t1 t2 t3 t4 table_train where
    mt: "mious_train = [t1, t2, t3, t4]" and
    e7: "e7 = [(Call ''writer.add_scalar''
                 [VObj wr, VStr (''mIOU/'' @ ''train'' @ ''/single_scale''), VReal t1,
                  VInt (int i)] [],
               Returned VNone),
              (Call ''writer.add_scalar''
                 [VObj wr, VStr (''mIOU/'' @ ''train'' @ ''/single_scale_crop''), VReal t2,
                  VInt (int i)] [],
               Returned VNone),
              (Call ''writer.add_scalar''
                 [VObj wr, VStr (''mIOU/'' @ ''train'' @ ''/multi_scale_flip''), VReal t3,
                  VInt (int i)] [],
               Returned VNone),
              (Call ''writer.add_scalar''
                 [VObj wr, VStr (''mIOU/'' @ ''train'' @ ''/multi_scale_flip_crop''), VReal t4,
                  VInt (int i)] [],
               Returned VNone),
              (Call ''tabulate'' [VList [enc_reals mious_train]]
                 [(''headers'', VList (map VStr heads_train)), (''tablefmt'', VStr ''orgtbl'')],
               Returned (VStr table_train)),
              (Call ''logger.info'' [VObj lg, VStr table_train] [], Returned VNone)]"
    by blast
  from save_best_model_Inr [OF r8] mv obtain state rank where
    r: "r = max v1 best" and
    e8: "e8 = (if v1 > best
                then [(Call ''net.module.state_dict'' [VObj nt] [], Returned (VObj state)),
                      (Call ''dist.get_rank'' [] [], Returned (VInt rank))]
                     @ (if rank = 0
                        then [(Call ''torch.save''
                                 [VObj state, VStr (path_join mdir ''best_model.pth'')] [],
                               Returned VNone)]
                        else [])
                else [])"
    by auto
  show ?thesis
    apply (rule exI [of _ log_pth], rule exI [of _ heads_val], rule exI [of _ v1],
        rule exI [of _ v2], rule exI [of _ v3], rule exI [of _ v4], rule exI [of _ table_val],
        rule exI [of _ heads_train], rule exI [of _ t1], rule exI [of _ t2], rule exI [of _ t3],
        rule exI [of _ t4], rule exI [of _ table_train], rule exI [of _ state],
        rule exI [of _ rank])
    apply (rule conjI [OF r])
    apply (simp only: es e1 e2 e3 e4 e5 e6 e7 e8 mv mt)
    apply simp
    done
qed

text \<open>
  C1. In an iteration of the training loop that runs to its end, when \<open>iteration + 1\<close> is
  a multiple of \<open>checkpoint_iters\<close> the calls of the iteration end with one complete
  evaluation, one checkpoint save and the scheduler step, and nothing before them is a call
  of the evaluation or of saving. The evaluation is: \<open>get_next_file_name\<close> on the log
  path, the announcement on the logger, \<open>torch.cuda.empty_cache\<close>, \<open>eval_model\<close> on the
  validation annotations, its four scores written to the writer and tabulated on the
  logger, \<open>eval_model\<close> on the training annotations logged in the same way, and, when the
  first validation score exceeds \<open>best_score\<close>, the state dict of the network saved to
  \<open>best_model.pth\<close> by the process of rank 0. The checkpoint save is:
  \<open>get_next_file_name\<close> on the models directory, \<open>net.module.state_dict\<close>,
  \<open>dist.get_rank\<close>, and \<open>torch.save\<close> of that state to that path exactly when the rank
  is 0. The iteration returns the larger of the first validation score and \<open>best_score\<close>.
  When \<open>iteration + 1\<close> is not a multiple of \<open>checkpoint_iters\<close>, the iteration, however
  it ends, makes none of these calls; in particular it never calls \<open>eval_model\<close> or
  \<open>torch.save\<close>.
\<close>

theorem checkpoint_cadence:
  assumes "train_iter fw cfg lc lp ir va fa ta i best batch h = (r, es)"
  shows "(\<forall>b. r = Inr b \<and> checkpoint_iters cfg dvd int i + 1 \<longrightarrow>
            (\<exists>es0 log_pth heads_val v1 v2 v3 v4 table_val heads_train t1 t2 t3 t4 table_train
                state rank save_pth state' rank'.
               b = max v1 best \<and>
               (\<forall>e \<in> set es0. callee (fst e) \<notin> {''get_next_file_name'', ''logger.info'',
               ''torch.cuda.empty_cache'', ''eval_model'', ''tabulate'',
               ''net.module.state_dict'', ''dist.get_rank'', ''torch.save''}) \<and>
               es = es0 @
             [(Call ''get_next_file_name'' [VStr lp]
                 [(''prefix'', VStr ''model_final_''), (''suffix'', VStr ''.pth'')],
               Returned (VStr log_pth)),
              (Call ''logger.info'' [VObj (logger lc),
                 VStr ([CHR 0x0A] @ ''evaluating the model '' @ [CHR 0x0A] @ ''save models to ''
                         @ log_pth)] [], Returned VNone),
              (Call ''torch.cuda.empty_cache'' [] [], Returned VNone),
              (Call ''eval_model'' []
                 [(''net'', VObj (net lc)), (''ims_per_gpu'', VInt (ims_per_gpu cfg)), (''im_root'', VStr ir),
                  (''im_anns'', VStr va), (''crop_size'', enc_int_pair (crop_size cfg)),
                  (''false_analysis_path'', VStr fa)],
               Returned (enc_eval (heads_val, [v1, v2, v3, v4]))),
              (Call ''writer.add_scalar''
                 [VObj (writer lc), VStr ''mIOU/val/single_scale'', VReal v1, VInt (int i)] [],
               Returned VNone),
              (Call ''writer.add_scalar''
                 [VObj (writer lc), VStr ''mIOU/val/single_scale_crop'', VReal v2, VInt (int i)] [],
               Returned VNone),
              (Call ''writer.add_scalar''
                 [VObj (writer lc), VStr ''mIOU/val/multi_scale_flip'', VReal v3, VInt (int i)] [],
               Returned VNone),
              (Call ''writer.add_scalar''
                 [VObj (writer lc), VStr ''mIOU/val/multi_scale_flip_crop'', VReal v4, VInt (int i)] [],
               Returned VNone),
              (Call ''tabulate'' [VList [enc_reals [v1, v2, v3, v4]]]
                 [(''headers'', VList (map VStr heads_val)), (''tablefmt'', VStr ''orgtbl'')],
               Returned (VStr table_val)),
              (Call ''logger.info'' [VObj (logger lc), VStr table_val] [], Returned VNone),
              (Call ''eval_model'' []
                 [(''net'', VObj (net lc)), (''ims_per_gpu'', VInt (ims_per_gpu cfg)), (''im_root'', VStr ir),
                  (''im_anns'', VStr ta), (''crop_size'', enc_int_pair (crop_size cfg)),
                  (''false_analysis_path'', VStr fa)],
               Returned (enc_eval (heads_train, [t1, t2, t3, t4]))),
              (Call ''writer.add_scalar''
                 [VObj (writer lc), VStr ''mIOU/train/single_scale'', VReal t1, VInt (int i)] [],
               Returned VNone),
              (Call ''writer.add_scalar''
                 [VObj (writer lc), VStr ''mIOU/train/single_scale_crop'', VReal t2, VInt (int i)] [],
               Returned VNone),
              (Call ''writer.add_scalar''
                 [VObj (writer lc), VStr ''mIOU/train/multi_scale_flip'', VReal t3, VInt (int i)] [],
               Returned VNone),
              (Call ''writer.add_scalar''
                 [VObj (writer lc), VStr ''mIOU/train/multi_scale_flip_crop'', VReal t4, VInt (int i)] [],
               Returned VNone),
              (Call ''tabulate'' [VList [enc_reals [t1, t2, t3, t4]]]
                 [(''headers'', VList (map VStr heads_train)), (''tablefmt'', VStr ''orgtbl'')],
               Returned (VStr table_train)),
              (Call ''logger.info'' [VObj (logger lc), VStr table_train] [], Returned VNone)]
             @ (if v1 > best
                then [(Call ''net.module.state_dict'' [VObj (net lc)] [], Returned (VObj state)),
                      (Call ''dist.get_rank'' [] [], Returned (VInt rank))]
                     @ (if rank = 0
                        then [(Call ''torch.save''
                                 [VObj state, VStr (path_join (models_dir lc) ''best_model.pth'')] [],
                               Returned VNone)]
                        else [])
                else []) @
             [(Call ''get_next_file_name'' [VStr (models_dir lc)]
                  [(''prefix'', VStr ''model_final_''), (''suffix'', VStr ''.pth'')],
                Returned (VStr save_pth)),
               (Call ''net.module.state_dict'' [VObj (net lc)] [], Returned (VObj state')),
               (Call ''dist.get_rank'' [] [], Returned (VInt rank'))]
              @ (if rank' = 0
                 then [(Call ''torch.save'' [VObj state', VStr save_pth] [], Returned VNone)]
                 else [])
              @ [(Call ''lr_scheduler.step'' [VObj (lr_scheduler lc)] [], Returned VNone)])) \<and>
         (\<not> checkpoint_iters cfg dvd int i + 1 \<longrightarrow>
            (\<forall>e \<in> set es. callee (fst e) \<notin> {''get_next_file_name'', ''logger.info'',
               ''torch.cuda.empty_cache'', ''eval_model'', ''tabulate'',
               ''net.module.state_dict'', ''dist.get_rank'', ''torch.save''}))"
proof (intro conjI allI impI ballI)
  fix b
  assume "r = Inr b \<and> checkpoint_iters cfg dvd int i + 1"
  then have run: "train_iter fw cfg lc lp ir va fa ta i best batch h = (Inr b, es)"
    and d: "checkpoint_iters cfg dvd int i + 1"
    using assms by simp_all
  from train_iter_Inr [OF run] obtain img label es1 ctx v h3 es3 loss loss_pre loss_aux es4
      h4 es5 h5 es6 h6 es7 h7 where
    r1: "prepare_batch fw lc i (fst batch) (snd batch) h = (Inr (img, label), es1)" and
    r3: "forward_and_loss fw lc i img label h3 = (Inr (loss, loss_pre, loss_aux), es3)" and
    r4: "backward_and_step fw lc loss h4 = (Inr (), es4)" and
    r5: "update_meters fw lc loss loss_pre loss_aux h5 = (Inr (), es5)" and
    r6: "print_message fw cfg lc i h6 = (Inr (), es6)" and
    r7: "evaluate_and_save fw cfg lc lp ir va fa ta i best h7 = (Inr b, es7)" and
    es: "es = es1 @ [(Call ''amp.autocast'' [] [(''enabled'', VBool (use_fp16 cfg))],
                 Returned (VObj ctx)),
                (Call ''__enter__'' [VObj ctx] [], Returned (VObj v))] @ es3
           @ [(Call ''__exit__'' [VObj ctx] [], Returned VNone)] @ es4 @ es5 @ es6 @ es7
           @ [(Call ''lr_scheduler.step'' [VObj (lr_scheduler lc)] [], Returned VNone)]"
    by blast
  let ?es0 = "es1 @ [(Call ''amp.autocast'' [] [(''enabled'', VBool (use_fp16 cfg))],
                 Returned (VObj ctx)),
                (Call ''__enter__'' [VObj ctx] [], Returned (VObj v))] @ es3
           @ [(Call ''__exit__'' [VObj ctx] [], Returned VNone)] @ es4 @ es5 @ es6"
  define T where "T = {''get_next_file_name'', ''logger.info'',
               ''torch.cuda.empty_cache'', ''eval_model'', ''tabulate'',
               ''net.module.state_dict'', ''dist.get_rank'', ''torch.save''}"
  have bs: "\<forall>e \<in> set es1. callee (fst e) \<notin> T" "\<forall>e \<in> set es3. callee (fst e) \<notin> T"
    "\<forall>e \<in> set es4. callee (fst e) \<notin> T" "\<forall>e \<in> set es5. callee (fst e) \<notin> T"
    "\<forall>e \<in> set es6. callee (fst e) \<notin> T"
    by (rule emits_disjoint(1) [OF emits_prepare_batch r1]
        emits_disjoint(1) [OF emits_forward_and_loss r3]
        emits_disjoint(1) [OF emits_backward_and_step r4]
        emits_disjoint(1) [OF emits_update_meters r5]
        emits_disjoint(1) [OF emits_print_message r6], simp add: T_def)+
  have "\<forall>e \<in> set ?es0. callee (fst e) \<notin> T"
    apply (simp add: ball_Un bs)
    apply (simp add: T_def)
    done
  then have excl: "\<forall>e \<in> set ?es0. callee (fst e) \<notin> {''get_next_file_name'', ''logger.info'',
               ''torch.cuda.empty_cache'', ''eval_model'', ''tabulate'',
               ''net.module.state_dict'', ''dist.get_rank'', ''torch.save''}"
    by (simp only: T_def)
  from evaluate_and_save_Inr [OF r7] d obtain e1 e2 where
    s1: "save_evaluation_log fw (models_dir lc) (logger lc) (net lc) (writer lc) i best
       (ims_per_gpu cfg) (crop_size cfg) lp ir va fa ta h7 = (Inr b, e1)" and
    s2: "save_checkpoint fw (models_dir lc) (net lc) (h7 @ e1) = (Inr (), e2)" and
    es7: "es7 = e1 @ e2"
    by auto
  from save_evaluation_log_trace [OF s1] obtain log_pth heads_val v1 v2 v3 v4 table_val
      heads_train t1 t2 t3 t4 table_train state rank where
    b: "b = max v1 best" and
    e1: "e1 = [(Call ''get_next_file_name'' [VStr lp]
                 [(''prefix'', VStr ''model_final_''), (''suffix'', VStr ''.pth'')],
               Returned (VStr log_pth)),
              (Call ''logger.info'' [VObj (logger lc),
                 VStr ([CHR 0x0A] @ ''evaluating the model '' @ [CHR 0x0A] @ ''save models to ''
                         @ log_pth)] [], Returned VNone),
              (Call ''torch.cuda.empty_cache'' [] [], Returned VNone),
              (Call ''eval_model'' []
                 [(''net'', VObj (net lc)), (''ims_per_gpu'', VInt (ims_per_gpu cfg)), (''im_root'', VStr ir),
                  (''im_anns'', VStr va), (''crop_size'', enc_int_pair (crop_size cfg)),
                  (''false_analysis_path'', VStr fa)],
               Returned (enc_eval (heads_val, [v1, v2, v3, v4]))),
              (Call ''writer.add_scalar''
                 [VObj (writer lc), VStr ''mIOU/val/single_scale'', VReal v1, VInt (int i)] [],
               Returned VNone),
              (Call ''writer.add_scalar''
                 [VObj (writer lc), VStr ''mIOU/val/single_scale_crop'', VReal v2, VInt (int i)] [],
               Returned VNone),
              (Call ''writer.add_scalar''
                 [VObj (writer lc), VStr ''mIOU/val/multi_scale_flip'', VReal v3, VInt (int i)] [],
               Returned VNone),
              (Call ''writer.add_scalar''
                 [VObj (writer lc), VStr ''mIOU/val/multi_scale_flip_crop'', VReal v4, VInt (int i)] [],
               Returned VNone),
              (Call ''tabulate'' [VList [enc_reals [v1, v2, v3, v4]]]
                 [(''headers'', VList (map VStr heads_val)), (''tablefmt'', VStr ''orgtbl'')],
               Returned (VStr table_val)),
              (Call ''logger.info'' [VObj (logger lc), VStr table_val] [], Returned VNone),
              (Call ''eval_model'' []
                 [(''net'', VObj (net lc)), (''ims_per_gpu'', VInt (ims_per_gpu cfg)), (''im_root'', VStr ir),
                  (''im_anns'', VStr ta), (''crop_size'', enc_int_pair (crop_size cfg)),
                  (''false_analysis_path'', VStr fa)],
               Returned (enc_eval (heads_train, [t1, t2, t3, t4]))),
              (Call ''writer.add_scalar''
                 [VObj (writer lc), VStr ''mIOU/train/single_scale'', VReal t1, VInt (int i)] [],
               Returned VNone),
              (Call ''writer.add_scalar''
                 [VObj (writer lc), VStr ''mIOU/train/single_scale_crop'', VReal t2, VInt (int i)] [],
               Returned VNone),
              (Call ''writer.add_scalar''
                 [VObj (writer lc), VStr ''mIOU/train/multi_scale_flip'', VReal t3, VInt (int i)] [],
               Returned VNone),
              (Call ''writer.add_scalar''
                 [VObj (writer lc), VStr ''mIOU/train/multi_scale_flip_crop'', VReal t4, VInt (int i)] [],
               Returned VNone),
              (Call ''tabulate'' [VList [enc_reals [t1, t2, t3, t4]]]
                 [(''headers'', VList (map VStr heads_train)), (''tablefmt'', VStr ''orgtbl'')],
               Returned (VStr table_train)),
              (Call ''logger.info'' [VObj (logger lc), VStr table_train] [], Returned VNone)]
             @ (if v1 > best
                then [(Call ''net.module.state_dict'' [VObj (net lc)] [], Returned (VObj state)),
                      (Call ''dist.get_rank'' [] [], Returned (VInt rank))]
                     @ (if rank = 0
                        then [(Call ''torch.save''
                                 [VObj state, VStr (path_join (models_dir lc) ''best_model.pth'')] [],
                               Returned VNone)]
                        else [])
                else [])"
    by blast
  from save_checkpoint_Inr [OF s2] obtain save_pth state' rank' where
    e2: "e2 = [(Call ''get_next_file_name'' [VStr (models_dir lc)]
              [(''prefix'', VStr ''model_final_''), (''suffix'', VStr ''.pth'')],
            Returned (VStr save_pth)),
           (Call ''net.module.state_dict'' [VObj (net lc)] [], Returned (VObj state')),
           (Call ''dist.get_rank'' [] [], Returned (VInt rank'))]
          @ (if rank' = 0
             then [(Call ''torch.save'' [VObj state', VStr save_pth] [], Returned VNone)]
             else [])"
    by blast
  have final: "es = ?es0 @ e1 @ e2
      @ [(Call ''lr_scheduler.step'' [VObj (lr_scheduler lc)] [], Returned VNone)]"
    by (simp add: es es7)
  show "\<exists>es0 log_pth heads_val v1 v2 v3 v4 table_val heads_train t1 t2 t3 t4 table_train
                state rank save_pth state' rank'.
               b = max v1 best \<and>
               (\<forall>e \<in> set es0. callee (fst e) \<notin> {''get_next_file_name'', ''logger.info'',
               ''torch.cuda.empty_cache'', ''eval_model'', ''tabulate'',
               ''net.module.state_dict'', ''dist.get_rank'', ''torch.save''}) \<and>
               es = es0 @
             [(Call ''get_next_file_name'' [VStr lp]
                 [(''prefix'', VStr ''model_final_''), (''suffix'', VStr ''.pth'')],
               Returned (VStr log_pth)),
              (Call ''logger.info'' [VObj (logger lc),
                 VStr ([CHR 0x0A] @ ''evaluating the model '' @ [CHR 0x0A] @ ''save models to ''
                         @ log_pth)] [], Returned VNone),
              (Call ''torch.cuda.empty_cache'' [] [], Returned VNone),
              (Call ''eval_model'' []
                 [(''net'', VObj (net lc)), (''ims_per_gpu'', VInt (ims_per_gpu cfg)), (''im_root'', VStr ir),
                  (''im_anns'', VStr va), (''crop_size'', enc_int_pair (crop_size cfg)),
                  (''false_analysis_path'', VStr fa)],
               Returned (enc_eval (heads_val, [v1, v2, v3, v4]))),
              (Call ''writer.add_scalar''
                 [VObj (writer lc), VStr ''mIOU/val/single_scale'', VReal v1, VInt (int i)] [],
               Returned VNone),
              (Call ''writer.add_scalar''
                 [VObj (writer lc), VStr ''mIOU/val/single_scale_crop'', VReal v2, VInt (int i)] [],
               Returned VNone),
              (Call ''writer.add_scalar''
                 [VObj (writer lc), VStr ''mIOU/val/multi_scale_flip'', VReal v3, VInt (int i)] [],
               Returned VNone),
              (Call ''writer.add_scalar''
                 [VObj (writer lc), VStr ''mIOU/val/multi_scale_flip_crop'', VReal v4, VInt (int i)] [],
               Returned VNone),
              (Call ''tabulate'' [VList [enc_reals [v1, v2, v3, v4]]]
                 [(''headers'', VList (map VStr heads_val)), (''tablefmt'', VStr ''orgtbl'')],
               Returned (VStr table_val)),
              (Call ''logger.info'' [VObj (logger lc), VStr table_val] [], Returned VNone),
              (Call ''eval_model'' []
                 [(''net'', VObj (net lc)), (''ims_per_gpu'', VInt (ims_per_gpu cfg)), (''im_root'', VStr ir),
                  (''im_anns'', VStr ta), (''crop_size'', enc_int_pair (crop_size cfg)),
                  (''false_analysis_path'', VStr fa)],
               Returned (enc_eval (heads_train, [t1, t2, t3, t4]))),
              (Call ''writer.add_scalar''
                 [VObj (writer lc), VStr ''mIOU/train/single_scale'', VReal t1, VInt (int i)] [],
               Returned VNone),
              (Call ''writer.add_scalar''
                 [VObj (writer lc), VStr ''mIOU/train/single_scale_crop'', VReal t2, VInt (int i)] [],
               Returned VNone),
              (Call ''writer.add_scalar''
                 [VObj (writer lc), VStr ''mIOU/train/multi_scale_flip'', VReal t3, VInt (int i)] [],
               Returned VNone),
              (Call ''writer.add_scalar''
                 [VObj (writer lc), VStr ''mIOU/train/multi_scale_flip_crop'', VReal t4, VInt (int i)] [],
               Returned VNone),
              (Call ''tabulate'' [VList [enc_reals [t1, t2, t3, t4]]]
                 [(''headers'', VList (map VStr heads_train)), (''tablefmt'', VStr ''orgtbl'')],
               Returned (VStr table_train)),
              (Call ''logger.info'' [VObj (logger lc), VStr table_train] [], Returned VNone)]
             @ (if v1 > best
                then [(Call ''net.module.state_dict'' [VObj (net lc)] [], Returned (VObj state)),
                      (Call ''dist.get_rank'' [] [], Returned (VInt rank))]
                     @ (if rank = 0
                        then [(Call ''torch.save''
                                 [VObj state, VStr (path_join (models_dir lc) ''best_model.pth'')] [],
                               Returned VNone)]
                        else [])
                else []) @
             [(Call ''get_next_file_name'' [VStr (models_dir lc)]
                  [(''prefix'', VStr ''model_final_''), (''suffix'', VStr ''.pth'')],
                Returned (VStr save_pth)),
               (Call ''net.module.state_dict'' [VObj (net lc)] [], Returned (VObj state')),
               (Call ''dist.get_rank'' [] [], Returned (VInt rank'))]
              @ (if rank' = 0
                 then [(Call ''torch.save'' [VObj state', VStr save_pth] [], Returned VNone)]
                 else [])
              @ [(Call ''lr_scheduler.step'' [VObj (lr_scheduler lc)] [], Returned VNone)]"
    apply (rule exI [of _ ?es0], rule exI [of _ log_pth], rule exI [of _ heads_val],
        rule exI [of _ v1], rule exI [of _ v2], rule exI [of _ v3], rule exI [of _ v4],
        rule exI [of _ table_val], rule exI [of _ heads_train], rule exI [of _ t1],
        rule exI [of _ t2], rule exI [of _ t3], rule exI [of _ t4], rule exI [of _ table_train],
        rule exI [of _ state], rule exI [of _ rank], rule exI [of _ save_pth],
        rule exI [of _ state'], rule exI [of _ rank'])
    apply (rule conjI [OF b])
    apply (rule conjI [OF excl])
    apply (simp only: final e1 e2 append.assoc)
    done
next
  fix e
  assume nd: "\<not> checkpoint_iters cfg dvd int i + 1" and e: "e \<in> set es"
  have "emits (\<lambda>c. callee c \<notin> {''get_next_file_name'', ''logger.info'',
               ''torch.cuda.empty_cache'', ''eval_model'', ''tabulate'',
               ''net.module.state_dict'', ''dist.get_rank'', ''torch.save''})
          (train_iter fw cfg lc lp ir va fa ta i best batch)"
    by (rule emits_train_iter)
      (auto intro: emits_mono [OF emits_print_message]
        emits_mono [OF evaluate_and_save_skip [OF nd]])
  from emitsD [OF this assms e]
  show "callee (fst e) \<notin> {''get_next_file_name'', ''logger.info'',
               ''torch.cuda.empty_cache'', ''eval_model'', ''tabulate'',
               ''net.module.state_dict'', ''dist.get_rank'', ''torch.save''}" .
qed

theorem checkpoint_cadence_witness:
  "(\<exists>b es es0 log_pth heads_val v1 v2 v3 v4 table_val heads_train t1 t2 t3 t4 table_train
      state rank save_pth state' rank'.
      train_iter fw_ok cfg_ok lc_ok ''logs'' ''data'' ''val.txt'' ''fa'' ''train.txt'' 0 0
        (Obj 100, Obj 101) [] = (Inr b, es) \<and>
      checkpoint_iters cfg_ok dvd int 0 + 1 \<and>
               b = max v1 0 \<and>
               list_all (\<lambda>e. callee (fst e) \<notin> {''get_next_file_name'', ''logger.info'',
               ''torch.cuda.empty_cache'', ''eval_model'', ''tabulate'',
               ''net.module.state_dict'', ''dist.get_rank'', ''torch.save''}) es0 \<and>
               es = es0 @
             [(Call ''get_next_file_name'' [VStr ''logs'']
                 [(''prefix'', VStr ''model_final_''), (''suffix'', VStr ''.pth'')],
               Returned (VStr log_pth)),
              (Call ''logger.info'' [VObj (logger lc_ok),
                 VStr ([CHR 0x0A] @ ''evaluating the model '' @ [CHR 0x0A] @ ''save models to ''
                         @ log_pth)] [], Returned VNone),
              (Call ''torch.cuda.empty_cache'' [] [], Returned VNone),
              (Call ''eval_model'' []
                 [(''net'', VObj (net lc_ok)), (''ims_per_gpu'', VInt (ims_per_gpu cfg_ok)), (''im_root'', VStr ''data''),
                  (''im_anns'', VStr ''val.txt''), (''crop_size'', enc_int_pair (crop_size cfg_ok)),
                  (''false_analysis_path'', VStr ''fa'')],
               Returned (enc_eval (heads_val, [v1, v2, v3, v4]))),
              (Call ''writer.add_scalar''
                 [VObj (writer lc_ok), VStr ''mIOU/val/single_scale'', VReal v1, VInt (int 0)] [],
               Returned VNone),
              (Call ''writer.add_scalar''
                 [VObj (writer lc_ok), VStr ''mIOU/val/single_scale_crop'', VReal v2, VInt (int 0)] [],
               Returned VNone),
              (Call ''writer.add_scalar''
                 [VObj (writer lc_ok), VStr ''mIOU/val/multi_scale_flip'', VReal v3, VInt (int 0)] [],
               Returned VNone),
              (Call ''writer.add_scalar''
                 [VObj (writer lc_ok), VStr ''mIOU/val/multi_scale_flip_crop'', VReal v4, VInt (int 0)] [],
               Returned VNone),
              (Call ''tabulate'' [VList [enc_reals [v1, v2, v3, v4]]]
                 [(''headers'', VList (map VStr heads_val)), (''tablefmt'', VStr ''orgtbl'')],
               Returned (VStr table_val)),
              (Call ''logger.info'' [VObj (logger lc_ok), VStr table_val] [], Returned VNone),
              (Call ''eval_model'' []
                 [(''net'', VObj (net lc_ok)), (''ims_per_gpu'', VInt (ims_per_gpu cfg_ok)), (''im_root'', VStr ''data''),
                  (''im_anns'', VStr ''train.txt''), (''crop_size'', enc_int_pair (crop_size cfg_ok)),
                  (''false_analysis_path'', VStr ''fa'')],
               Returned (enc_eval (heads_train, [t1, t2, t3, t4]))),
              (Call ''writer.add_scalar''
                 [VObj (writer lc_ok), VStr ''mIOU/train/single_scale'', VReal t1, VInt (int 0)] [],
               Returned VNone),
              (Call ''writer.add_scalar''
                 [VObj (writer lc_ok), VStr ''mIOU/train/single_scale_crop'', VReal t2, VInt (int 0)] [],
               Returned VNone),
              (Call ''writer.add_scalar''
                 [VObj (writer lc_ok), VStr ''mIOU/train/multi_scale_flip'', VReal t3, VInt (int 0)] [],
               Returned VNone),
              (Call ''writer.add_scalar''
                 [VObj (writer lc_ok), VStr ''mIOU/train/multi_scale_flip_crop'', VReal t4, VInt (int 0)] [],
               Returned VNone),
              (Call ''tabulate'' [VList [enc_reals [t1, t2, t3, t4]]]
                 [(''headers'', VList (map VStr heads_train)), (''tablefmt'', VStr ''orgtbl'')],
               Returned (VStr table_train)),
              (Call ''logger.info'' [VObj (logger lc_ok), VStr table_train] [], Returned VNone)]
             @ (if v1 > 0
                then [(Call ''net.module.state_dict'' [VObj (net lc_ok)] [], Returned (VObj state)),
                      (Call ''dist.get_rank'' [] [], Returned (VInt rank))]
                     @ (if rank = 0
                        then [(Call ''torch.save''
                                 [VObj state, VStr (path_join (models_dir lc_ok) ''best_model.pth'')] [],
                               Returned VNone)]
                        else [])
                else []) @
             [(Call ''get_next_file_name'' [VStr (models_dir lc_ok)]
                  [(''prefix'', VStr ''model_final_''), (''suffix'', VStr ''.pth'')],
                Returned (VStr save_pth)),
               (Call ''net.module.state_dict'' [VObj (net lc_ok)] [], Returned (VObj state')),
               (Call ''dist.get_rank'' [] [], Returned (VInt rank'))]
              @ (if rank' = 0
                 then [(Call ''torch.save'' [VObj state', VStr save_pth] [], Returned VNone)]
                 else [])
              @ [(Call ''lr_scheduler.step'' [VObj (lr_scheduler lc_ok)] [], Returned VNone)]) \<and>
   (\<exists>r es.
      train_iter fw_ok cfg_skip lc_ok ''logs'' ''data'' ''val.txt'' ''fa'' ''train.txt'' 0 0
        (Obj 100, Obj 101) [] = (r, es) \<and>
      \<not> checkpoint_iters cfg_skip dvd int 0 + 1 \<and>
      list_all (\<lambda>e. callee (fst e) \<notin> {''get_next_file_name'', ''logger.info'',
               ''torch.cuda.empty_cache'', ''eval_model'', ''tabulate'',
               ''net.module.state_dict'', ''dist.get_rank'', ''torch.save''}) es)"
proof (rule conjI)
  obtain es where run:
    "train_iter fw_ok cfg_ok lc_ok ''logs'' ''data'' ''val.txt'' ''fa'' ''train.txt'' 0 0
        (Obj 100, Obj 101) [] = (Inr (1 / 2), es)"
    using train_iter_ok by (metis prod.collapse)
  have d: "checkpoint_iters cfg_ok dvd int 0 + 1"
    by (simp add: cfg_ok_def)
  from checkpoint_cadence [OF run, THEN conjunct1, rule_format, OF conjI [OF refl d]]
  obtain es0 log_pth heads_val v1 v2 v3 v4 table_val heads_train t1 t2 t3 t4 table_train
      state rank save_pth state' rank' where
    b: "1 / 2 = max v1 0" and
    excl: "\<forall>e \<in> set es0. callee (fst e) \<notin> {''get_next_file_name'', ''logger.info'',
               ''torch.cuda.empty_cache'', ''eval_model'', ''tabulate'',
               ''net.module.state_dict'', ''dist.get_rank'', ''torch.save''}" and
    es: "es = es0 @
             [(Call ''get_next_file_name'' [VStr ''logs'']
                 [(''prefix'', VStr ''model_final_''), (''suffix'', VStr ''.pth'')],
               Returned (VStr log_pth)),
              (Call ''logger.info'' [VObj (logger lc_ok),
                 VStr ([CHR 0x0A] @ ''evaluating the model '' @ [CHR 0x0A] @ ''save models to ''
                         @ log_pth)] [], Returned VNone),
              (Call ''torch.cuda.empty_cache'' [] [], Returned VNone),
              (Call ''eval_model'' []
                 [(''net'', VObj (net lc_ok)), (''ims_per_gpu'', VInt (ims_per_gpu cfg_ok)), (''im_root'', VStr ''data''),
                  (''im_anns'', VStr ''val.txt''), (''crop_size'', enc_int_pair (crop_size cfg_ok)),
                  (''false_analysis_path'', VStr ''fa'')],
               Returned (enc_eval (heads_val, [v1, v2, v3, v4]))),
              (Call ''writer.add_scalar''
                 [VObj (writer lc_ok), VStr ''mIOU/val/single_scale'', VReal v1, VInt (int 0)] [],
               Returned VNone),
              (Call ''writer.add_scalar''
                 [VObj (writer lc_ok), VStr ''mIOU/val/single_scale_crop'', VReal v2, VInt (int 0)] [],
               Returned VNone),
              (Call ''writer.add_scalar''
                 [VObj (writer lc_ok), VStr ''mIOU/val/multi_scale_flip'', VReal v3, VInt (int 0)] [],
               Returned VNone),
              (Call ''writer.add_scalar''
                 [VObj (writer lc_ok), VStr ''mIOU/val/multi_scale_flip_crop'', VReal v4, VInt (int 0)] [],
               Returned VNone),
              (Call ''tabulate'' [VList [enc_reals [v1, v2, v3, v4]]]
                 [(''headers'', VList (map VStr heads_val)), (''tablefmt'', VStr ''orgtbl'')],
               Returned (VStr table_val)),
              (Call ''logger.info'' [VObj (logger lc_ok), VStr table_val] [], Returned VNone),
              (Call ''eval_model'' []
                 [(''net'', VObj (net lc_ok)), (''ims_per_gpu'', VInt (ims_per_gpu cfg_ok)), (''im_root'', VStr ''data''),
                  (''im_anns'', VStr ''train.txt''), (''crop_size'', enc_int_pair (crop_size cfg_ok)),
                  (''false_analysis_path'', VStr ''fa'')],
               Returned (enc_eval (heads_train, [t1, t2, t3, t4]))),
              (Call ''writer.add_scalar''
                 [VObj (writer lc_ok), VStr ''mIOU/train/single_scale'', VReal t1, VInt (int 0)] [],
               Returned VNone),
              (Call ''writer.add_scalar''
                 [VObj (writer lc_ok), VStr ''mIOU/train/single_scale_crop'', VReal t2, VInt (int 0)] [],
               Returned VNone),
              (Call ''writer.add_scalar''
                 [VObj (writer lc_ok), VStr ''mIOU/train/multi_scale_flip'', VReal t3, VInt (int 0)] [],
               Returned VNone),
              (Call ''writer.add_scalar''
                 [VObj (writer lc_ok), VStr ''mIOU/train/multi_scale_flip_crop'', VReal t4, VInt (int 0)] [],
               Returned VNone),
              (Call ''tabulate'' [VList [enc_reals [t1, t2, t3, t4]]]
                 [(''headers'', VList (map VStr heads_train)), (''tablefmt'', VStr ''orgtbl'')],
               Returned (VStr table_train)),
              (Call ''logger.info'' [VObj (logger lc_ok), VStr table_train] [], Returned VNone)]
             @ (if v1 > 0
                then [(Call ''net.module.state_dict'' [VObj (net lc_ok)] [], Returned (VObj state)),
                      (Call ''dist.get_rank'' [] [], Returned (VInt rank))]
                     @ (if rank = 0
                        then [(Call ''torch.save''
                                 [VObj state, VStr (path_join (models_dir lc_ok) ''best_model.pth'')] [],
                               Returned VNone)]
                        else [])
                else []) @
             [(Call ''get_next_file_name'' [VStr (models_dir lc_ok)]
                  [(''prefix'', VStr ''model_final_''), (''suffix'', VStr ''.pth'')],
                Returned (VStr save_pth)),
               (Call ''net.module.state_dict'' [VObj (net lc_ok)] [], Returned (VObj state')),
               (Call ''dist.get_rank'' [] [], Returned (VInt rank'))]
              @ (if rank' = 0
                 then [(Call ''torch.save'' [VObj state', VStr save_pth] [], Returned VNone)]
                 else [])
              @ [(Call ''lr_scheduler.step'' [VObj (lr_scheduler lc_ok)] [], Returned VNone)]"
    by blast
  from excl have excl': "list_all (\<lambda>e. callee (fst e) \<notin> {''get_next_file_name'', ''logger.info'',
               ''torch.cuda.empty_cache'', ''eval_model'', ''tabulate'',
               ''net.module.state_dict'', ''dist.get_rank'', ''torch.save''}) es0"
    by (simp only: list_all_iff)
  show "\<exists>b es es0 log_pth heads_val v1 v2 v3 v4 table_val heads_train t1 t2 t3 t4 table_train
      state rank save_pth state' rank'.
      train_iter fw_ok cfg_ok lc_ok ''logs'' ''data'' ''val.txt'' ''fa'' ''train.txt'' 0 0
        (Obj 100, Obj 101) [] = (Inr b, es) \<and>
      checkpoint_iters cfg_ok dvd int 0 + 1 \<and>
               b = max v1 0 \<and>
               list_all (\<lambda>e. callee (fst e) \<notin> {''get_next_file_name'', ''logger.info'',
               ''torch.cuda.empty_cache'', ''eval_model'', ''tabulate'',
               ''net.module.state_dict'', ''dist.get_rank'', ''torch.save''}) es0 \<and>
               es = es0 @
             [(Call ''get_next_file_name'' [VStr ''logs'']
                 [(''prefix'', VStr ''model_final_''), (''suffix'', VStr ''.pth'')],
               Returned (VStr log_pth)),
              (Call ''logger.info'' [VObj (logger lc_ok),
                 VStr ([CHR 0x0A] @ ''evaluating the model '' @ [CHR 0x0A] @ ''save models to ''
                         @ log_pth)] [], Returned VNone),
              (Call ''torch.cuda.empty_cache'' [] [], Returned VNone),
              (Call ''eval_model'' []
                 [(''net'', VObj (net lc_ok)), (''ims_per_gpu'', VInt (ims_per_gpu cfg_ok)), (''im_root'', VStr ''data''),
                  (''im_anns'', VStr ''val.txt''), (''crop_size'', enc_int_pair (crop_size cfg_ok)),
                  (''false_analysis_path'', VStr ''fa'')],
               Returned (enc_eval (heads_val, [v1, v2, v3, v4]))),
              (Call ''writer.add_scalar''
                 [VObj (writer lc_ok), VStr ''mIOU/val/single_scale'', VReal v1, VInt (int 0)] [],
               Returned VNone),
              (Call ''writer.add_scalar''
                 [VObj (writer lc_ok), VStr ''mIOU/val/single_scale_crop'', VReal v2, VInt (int 0)] [],
               Returned VNone),
              (Call ''writer.add_scalar''
                 [VObj (writer lc_ok), VStr ''mIOU/val/multi_scale_flip'', VReal v3, VInt (int 0)] [],
               Returned VNone),
              (Call ''writer.add_scalar''
                 [VObj (writer lc_ok), VStr ''mIOU/val/multi_scale_flip_crop'', VReal v4, VInt (int 0)] [],
               Returned VNone),
              (Call ''tabulate'' [VList [enc_reals [v1, v2, v3, v4]]]
                 [(''headers'', VList (map VStr heads_val)), (''tablefmt'', VStr ''orgtbl'')],
               Returned (VStr table_val)),
              (Call ''logger.info'' [VObj (logger lc_ok), VStr table_val] [], Returned VNone),
              (Call ''eval_model'' []
                 [(''net'', VObj (net lc_ok)), (''ims_per_gpu'', VInt (ims_per_gpu cfg_ok)), (''im_root'', VStr ''data''),
                  (''im_anns'', VStr ''train.txt''), (''crop_size'', enc_int_pair (crop_size cfg_ok)),
                  (''false_analysis_path'', VStr ''fa'')],
               Returned (enc_eval (heads_train, [t1, t2, t3, t4]))),
              (Call ''writer.add_scalar''
                 [VObj (writer lc_ok), VStr ''mIOU/train/single_scale'', VReal t1, VInt (int 0)] [],
               Returned VNone),
              (Call ''writer.add_scalar''
                 [VObj (writer lc_ok), VStr ''mIOU/train/single_scale_crop'', VReal t2, VInt (int 0)] [],
               Returned VNone),
              (Call ''writer.add_scalar''
                 [VObj (writer lc_ok), VStr ''mIOU/train/multi_scale_flip'', VReal t3, VInt (int 0)] [],
               Returned VNone),
              (Call ''writer.add_scalar''
                 [VObj (writer lc_ok), VStr ''mIOU/train/multi_scale_flip_crop'', VReal t4, VInt (int 0)] [],
               Returned VNone),
              (Call ''tabulate'' [VList [enc_reals [t1, t2, t3, t4]]]
                 [(''headers'', VList (map VStr heads_train)), (''tablefmt'', VStr ''orgtbl'')],
               Returned (VStr table_train)),
              (Call ''logger.info'' [VObj (logger lc_ok), VStr table_train] [], Returned VNone)]
             @ (if v1 > 0
                then [(Call ''net.module.state_dict'' [VObj (net lc_ok)] [], Returned (VObj state)),
                      (Call ''dist.get_rank'' [] [], Returned (VInt rank))]
                     @ (if rank = 0
                        then [(Call ''torch.save''
                                 [VObj state, VStr (path_join (models_dir lc_ok) ''best_model.pth'')] [],
                               Returned VNone)]
                        else [])
                else []) @
             [(Call ''get_next_file_name'' [VStr (models_dir lc_ok)]
                  [(''prefix'', VStr ''model_final_''), (''suffix'', VStr ''.pth'')],
                Returned (VStr save_pth)),
               (Call ''net.module.state_dict'' [VObj (net lc_ok)] [], Returned (VObj state')),
               (Call ''dist.get_rank'' [] [], Returned (VInt rank'))]
              @ (if rank' = 0
                 then [(Call ''torch.save'' [VObj state', VStr save_pth] [], Returned VNone)]
                 else [])
              @ [(Call ''lr_scheduler.step'' [VObj (lr_scheduler lc_ok)] [], Returned VNone)]"
    apply (rule exI [of _ "1 / 2"],
        rule exI [of _ es],
        rule exI [of _ es0],
        rule exI [of _ log_pth],
        rule exI [of _ heads_val],
        rule exI [of _ v1],
        rule exI [of _ v2],
        rule exI [of _ v3],
        rule exI [of _ v4],
        rule exI [of _ table_val],
        rule exI [of _ heads_train],
        rule exI [of _ t1],
        rule exI [of _ t2],
        rule exI [of _ t3],
        rule exI [of _ t4],
        rule exI [of _ table_train],
        rule exI [of _ state],
        rule exI [of _ rank],
        rule exI [of _ save_pth],
        rule exI [of _ state'],
        rule exI [of _ rank'])
    apply (rule conjI [OF run])
    apply (rule conjI [OF d])
    apply (rule conjI [OF b])
    apply (rule conjI [OF excl'])
    apply (rule es)
    done
next
  obtain r es where run:
    "train_iter fw_ok cfg_skip lc_ok ''logs'' ''data'' ''val.txt'' ''fa'' ''train.txt'' 0 0
       (Obj 100, Obj 101) [] = (r, es)"
    by force
  have nd: "\<not> checkpoint_iters cfg_skip dvd int 0 + 1"
    by (simp add: cfg_skip_def)
  from checkpoint_cadence [OF run] nd run
  show "\<exists>r es.
      train_iter fw_ok cfg_skip lc_ok ''logs'' ''data'' ''val.txt'' ''fa'' ''train.txt'' 0 0
        (Obj 100, Obj 101) [] = (r, es) \<and>
      \<not> checkpoint_iters cfg_skip dvd int 0 + 1 \<and>
      list_all (\<lambda>e. callee (fst e) \<notin> {''get_next_file_name'', ''logger.info'',
               ''torch.cuda.empty_cache'', ''eval_model'', ''tabulate'',
               ''net.module.state_dict'', ''dist.get_rank'', ''torch.save''}) es"
    unfolding list_all_iff by blast
qed

text \<open>
  C7. In an iteration that runs to its end, the scheduler is stepped exactly once, as the
  iteration's last call. When \<open>iteration + 1\<close> is a multiple of \<open>message_iters\<close> the
  iteration asks the scheduler for its learning rates once and calls \<open>print_log_msg\<close>
  once, with their arithmetic mean; otherwise it does not call \<open>print_log_msg\<close>. An
  iteration for which \<open>iteration + 1\<close> is not a multiple of \<open>message_iters\<close> never
  calls \<open>print_log_msg\<close>, however it ends.
\<close>

theorem message_cadence:
  assumes "train_iter fw cfg lc lp ir va fa ta i best batch h = (r, es)"
  shows "(\<forall>b. r = Inr b \<longrightarrow>
           (\<exists>es'. es = es' @ [(Call ''lr_scheduler.step'' [VObj (lr_scheduler lc)] [],
                                Returned VNone)] \<and>
              calls_to ''lr_scheduler.step'' es' = [] \<and>
              (if message_iters cfg dvd int i + 1
               then \<exists>lrs. lrs \<noteq> [] \<and>
                 filter (\<lambda>e. callee (fst e) \<in> {''lr_scheduler.get_lr'', ''print_log_msg''}) es =
                   [(Call ''lr_scheduler.get_lr'' [VObj (lr_scheduler lc)] [],
                     Returned (enc_reals lrs)),
                    (Call ''print_log_msg''
                       [VInt (int i), VInt (max_iter cfg),
                        VReal (sum_list lrs / real (length lrs)),
                        VObj (time_meter lc), VObj (loss_meter lc), VObj (loss_pre_meter lc),
                        enc_objs (loss_aux_meters lc)] [], Returned VNone)]
               else calls_to ''print_log_msg'' es = []))) \<and>
         (\<not> message_iters cfg dvd int i + 1 \<longrightarrow> calls_to ''print_log_msg'' es = [])"
proof (intro conjI allI impI)
  fix b
  assume "r = Inr b"
  with assms have run: "train_iter fw cfg lc lp ir va fa ta i best batch h = (Inr b, es)"
    by simp
  from train_iter_Inr [OF run] obtain img label es1 ctx v h3 es3 loss loss_pre loss_aux es4
      h4 es5 h5 es6 h6 es7 h7 where
    r1: "prepare_batch fw lc i (fst batch) (snd batch) h = (Inr (img, label), es1)" and
    r3: "forward_and_loss fw lc i img label h3 = (Inr (loss, loss_pre, loss_aux), es3)" and
    r4: "backward_and_step fw lc loss h4 = (Inr (), es4)" and
    r5: "update_meters fw lc loss loss_pre loss_aux h5 = (Inr (), es5)" and
    r6: "print_message fw cfg lc i h6 = (Inr (), es6)" and
    r7: "evaluate_and_save fw cfg lc lp ir va fa ta i best h7 = (Inr b, es7)" and
    es: "es = es1 @ [(Call ''amp.autocast'' [] [(''enabled'', VBool (use_fp16 cfg))],
                 Returned (VObj ctx)),
                (Call ''__enter__'' [VObj ctx] [], Returned (VObj v))] @ es3
           @ [(Call ''__exit__'' [VObj ctx] [], Returned VNone)] @ es4 @ es5 @ es6 @ es7
           @ [(Call ''lr_scheduler.step'' [VObj (lr_scheduler lc)] [], Returned VNone)]"
    by blast
  let ?es' = "es1 @ [(Call ''amp.autocast'' [] [(''enabled'', VBool (use_fp16 cfg))],
                 Returned (VObj ctx)),
                (Call ''__enter__'' [VObj ctx] [], Returned (VObj v))] @ es3
           @ [(Call ''__exit__'' [VObj ctx] [], Returned VNone)] @ es4 @ es5 @ es6 @ es7"
  note c1 = emits_calls_to_empty [OF emits_prepare_batch r1]
  note c3 = emits_calls_to_empty [OF emits_forward_and_loss r3]
  note c4 = emits_calls_to_empty [OF emits_backward_and_step r4]
  note c5 = emits_calls_to_empty [OF emits_update_meters r5]
  note c6 = emits_calls_to_empty [OF emits_print_message r6]
  note c7 = emits_calls_to_empty [OF emits_evaluate_and_save r7]
  have step: "calls_to ''lr_scheduler.step'' ?es' = []"
    by (simp add: calls_to_simps c1 c3 c4 c5 c6 c7)
  define T where "T = {''lr_scheduler.get_lr'', ''print_log_msg''}"
  have f: "filter (\<lambda>e. callee (fst e) \<in> T) es1 = []"
    "filter (\<lambda>e. callee (fst e) \<in> T) es3 = []"
    "filter (\<lambda>e. callee (fst e) \<in> T) es4 = []"
    "filter (\<lambda>e. callee (fst e) \<in> T) es5 = []"
    "filter (\<lambda>e. callee (fst e) \<in> T) es7 = []"
    "filter (\<lambda>e. callee (fst e) \<in> T) es6 = es6"
    by (rule emits_disjoint(2) [OF emits_prepare_batch r1]
        emits_disjoint(2) [OF emits_forward_and_loss r3]
        emits_disjoint(2) [OF emits_backward_and_step r4]
        emits_disjoint(2) [OF emits_update_meters r5]
        emits_disjoint(2) [OF emits_evaluate_and_save r7]
        emits_subset_filter [OF emits_print_message r6], simp add: T_def)+
  have "filter (\<lambda>e. callee (fst e) \<in> T) es = es6"
    apply (simp add: es f)
    apply (simp add: T_def)
    done
  then have msg:
    "filter (\<lambda>e. callee (fst e) \<in> {''lr_scheduler.get_lr'', ''print_log_msg''}) es = es6"
    by (simp only: T_def)
  have msg': "calls_to ''print_log_msg'' es = calls_to ''print_log_msg'' es6"
    by (simp add: es calls_to_simps c1 c3 c4 c5 c7)
  from print_message_Inr [OF r6] msg msg' have
    "if message_iters cfg dvd int i + 1
               then \<exists>lrs. lrs \<noteq> [] \<and>
                 filter (\<lambda>e. callee (fst e) \<in> {''lr_scheduler.get_lr'', ''print_log_msg''}) es =
                   [(Call ''lr_scheduler.get_lr'' [VObj (lr_scheduler lc)] [],
                     Returned (enc_reals lrs)),
                    (Call ''print_log_msg''
                       [VInt (int i), VInt (max_iter cfg),
                        VReal (sum_list lrs / real (length lrs)),
                        VObj (time_meter lc), VObj (loss_meter lc), VObj (loss_pre_meter lc),
                        enc_objs (loss_aux_meters lc)] [], Returned VNone)]
               else calls_to ''print_log_msg'' es = []"
    by (auto simp: calls_to_def split: if_splits)
  with step es
  show "\<exists>es'. es = es' @ [(Call ''lr_scheduler.step'' [VObj (lr_scheduler lc)] [],
                                Returned VNone)] \<and>
              calls_to ''lr_scheduler.step'' es' = [] \<and>
              (if message_iters cfg dvd int i + 1
               then \<exists>lrs. lrs \<noteq> [] \<and>
                 filter (\<lambda>e. callee (fst e) \<in> {''lr_scheduler.get_lr'', ''print_log_msg''}) es =
                   [(Call ''lr_scheduler.get_lr'' [VObj (lr_scheduler lc)] [],
                     Returned (enc_reals lrs)),
                    (Call ''print_log_msg''
                       [VInt (int i), VInt (max_iter cfg),
                        VReal (sum_list lrs / real (length lrs)),
                        VObj (time_meter lc), VObj (loss_meter lc), VObj (loss_pre_meter lc),
                        enc_objs (loss_aux_meters lc)] [], Returned VNone)]
               else calls_to ''print_log_msg'' es = [])"
    by (intro exI [of _ ?es']) simp
next
  assume nd: "\<not> message_iters cfg dvd int i + 1"
  have "emits (\<lambda>c. callee c \<noteq> ''print_log_msg'')
          (train_iter fw cfg lc lp ir va fa ta i best batch)"
    by (rule emits_train_iter)
      (auto intro: emits_mono [OF print_message_skip [OF nd]]
        emits_mono [OF emits_evaluate_and_save])
  from emitsD [OF this assms]
  show "calls_to ''print_log_msg'' es = []"
    by (auto simp: calls_to_def filter_empty_conv)
qed

theorem message_cadence_witness:
  "(\<exists>b es es' lrs.
      train_iter fw_ok cfg_ok lc_ok ''logs'' ''data'' ''val.txt'' ''fa'' ''train.txt'' 0 0
        (Obj 100, Obj 101) [] = (Inr b, es) \<and>
      message_iters cfg_ok dvd int 0 + 1 \<and>
      es = es' @ [(Call ''lr_scheduler.step'' [VObj (lr_scheduler lc_ok)] [], Returned VNone)] \<and>
      calls_to ''lr_scheduler.step'' es' = [] \<and> lrs \<noteq> [] \<and>
      filter (\<lambda>e. callee (fst e) \<in> {''lr_scheduler.get_lr'', ''print_log_msg''}) es =
        [(Call ''lr_scheduler.get_lr'' [VObj (lr_scheduler lc_ok)] [], Returned (enc_reals lrs)),
         (Call ''print_log_msg''
            [VInt (int 0), VInt (max_iter cfg_ok), VReal (sum_list lrs / real (length lrs)),
             VObj (time_meter lc_ok), VObj (loss_meter lc_ok), VObj (loss_pre_meter lc_ok),
             enc_objs (loss_aux_meters lc_ok)] [], Returned VNone)]) \<and>
   (\<exists>r es.
      train_iter fw_ok cfg_skip lc_ok ''logs'' ''data'' ''val.txt'' ''fa'' ''train.txt'' 0 0
        (Obj 100, Obj 101) [] = (r, es) \<and>
      \<not> message_iters cfg_skip dvd int 0 + 1 \<and> calls_to ''print_log_msg'' es = [])"
proof (rule conjI)
  obtain es where run:
    "train_iter fw_ok cfg_ok lc_ok ''logs'' ''data'' ''val.txt'' ''fa'' ''train.txt'' 0 0
       (Obj 100, Obj 101) [] = (Inr (1 / 2), es)"
    using train_iter_ok by (metis prod.collapse)
  have d: "message_iters cfg_ok dvd int 0 + 1"
    by (simp add: cfg_ok_def)
  from message_cadence [OF run, THEN conjunct1, rule_format, OF refl, unfolded if_P [OF d]]
  obtain es' lrs where
    "es = es' @ [(Call ''lr_scheduler.step'' [VObj (lr_scheduler lc_ok)] [], Returned VNone)]"
    "calls_to ''lr_scheduler.step'' es' = []" "lrs \<noteq> []"
    "filter (\<lambda>e. callee (fst e) \<in> {''lr_scheduler.get_lr'', ''print_log_msg''}) es =
        [(Call ''lr_scheduler.get_lr'' [VObj (lr_scheduler lc_ok)] [], Returned (enc_reals lrs)),
         (Call ''print_log_msg''
            [VInt (int 0), VInt (max_iter cfg_ok), VReal (sum_list lrs / real (length lrs)),
             VObj (time_meter lc_ok), VObj (loss_meter lc_ok), VObj (loss_pre_meter lc_ok),
             enc_objs (loss_aux_meters lc_ok)] [], Returned VNone)]"
    by blast
  with run d show "\<exists>b es es' lrs.
      train_iter fw_ok cfg_ok lc_ok ''logs'' ''data'' ''val.txt'' ''fa'' ''train.txt'' 0 0
        (Obj 100, Obj 101) [] = (Inr b, es) \<and>
      message_iters cfg_ok dvd int 0 + 1 \<and>
      es = es' @ [(Call ''lr_scheduler.step'' [VObj (lr_scheduler lc_ok)] [], Returned VNone)] \<and>
      calls_to ''lr_scheduler.step'' es' = [] \<and> lrs \<noteq> [] \<and>
      filter (\<lambda>e. callee (fst e) \<in> {''lr_scheduler.get_lr'', ''print_log_msg''}) es =
        [(Call ''lr_scheduler.get_lr'' [VObj (lr_scheduler lc_ok)] [], Returned (enc_reals lrs)),
         (Call ''print_log_msg''
            [VInt (int 0), VInt (max_iter cfg_ok), VReal (sum_list lrs / real (length lrs)),
             VObj (time_meter lc_ok), VObj (loss_meter lc_ok), VObj (loss_pre_meter lc_ok),
             enc_objs (loss_aux_meters lc_ok)] [], Returned VNone)]"
    by blast
next
  obtain r es where run:
    "train_iter fw_ok cfg_skip lc_ok ''logs'' ''data'' ''val.txt'' ''fa'' ''train.txt'' 0 0
       (Obj 100, Obj 101) [] = (r, es)"
    by force
  have nd: "\<not> message_iters cfg_skip dvd int 0 + 1"
    by (simp add: cfg_skip_def)
  from message_cadence [OF run, THEN conjunct2, rule_format, OF nd] nd run
  show "\<exists>r es.
      train_iter fw_ok cfg_skip lc_ok ''logs'' ''data'' ''val.txt'' ''fa'' ''train.txt'' 0 0
        (Obj 100, Obj 101) [] = (r, es) \<and>
      \<not> message_iters cfg_skip dvd int 0 + 1 \<and> calls_to ''print_log_msg'' es = []"
    by blast
qed

text \<open>
  C4. An iteration that runs to its end makes, in this order: \<open>amp.autocast\<close> with
  \<open>enabled = use_fp16\<close> and the region's entry; inside the region the forward pass and
  the computation of the losses (lines 276 to 281); the region's exit; \<open>scaler.scale\<close> on
  the total loss; \<open>backward\<close> on what \<open>scaler.scale\<close> returned; \<open>scaler.step\<close> on the
  optimizer; \<open>scaler.update\<close>. It makes no other call of the region, the network, the
  criteria, the tensor addition or the scaler.
\<close>

theorem mixed_precision_steps:
  assumes "train_iter fw cfg lc lp ir va fa ta i best batch h = (Inr b, es)"
  shows "\<exists>es_pre ctx v img label h' es_body loss loss_pre loss_aux scaled es_rest.
     es = es_pre
          @ [(Call ''amp.autocast'' [] [(''enabled'', VBool (use_fp16 cfg))], Returned (VObj ctx)),
             (Call ''__enter__'' [VObj ctx] [], Returned (VObj v))]
          @ es_body
          @ [(Call ''__exit__'' [VObj ctx] [], Returned VNone),
             (Call ''scaler.scale'' [VObj (scaler lc), VObj loss] [], Returned (VObj scaled)),
             (Call ''backward'' [VObj scaled] [], Returned VNone),
             (Call ''scaler.step'' [VObj (scaler lc), VObj (optimizer lc)] [], Returned VNone),
             (Call ''scaler.update'' [VObj (scaler lc)] [], Returned VNone)]
          @ es_rest \<and>
     forward_and_loss fw lc i img label h' = (Inr (loss, loss_pre, loss_aux), es_body) \<and>
     (\<forall>e \<in> set (es_pre @ es_rest). callee (fst e) \<notin> {''amp.autocast'', ''__enter__'',
        ''__exit__'', ''net'', ''criteria_pre'', ''criteria'', ''+'', ''scaler.scale'',
        ''backward'', ''scaler.step'', ''scaler.update''})"
proof -
  from train_iter_Inr [OF assms] obtain img label es1 ctx v h3 es3 loss loss_pre loss_aux es4
      h4 es5 h5 es6 h6 es7 h7 where
    r1: "prepare_batch fw lc i (fst batch) (snd batch) h = (Inr (img, label), es1)" and
    r3: "forward_and_loss fw lc i img label h3 = (Inr (loss, loss_pre, loss_aux), es3)" and
    r4: "backward_and_step fw lc loss h4 = (Inr (), es4)" and
    r5: "update_meters fw lc loss loss_pre loss_aux h5 = (Inr (), es5)" and
    r6: "print_message fw cfg lc i h6 = (Inr (), es6)" and
    r7: "evaluate_and_save fw cfg lc lp ir va fa ta i best h7 = (Inr b, es7)" and
    es: "es = es1 @ [(Call ''amp.autocast'' [] [(''enabled'', VBool (use_fp16 cfg))],
                 Returned (VObj ctx)),
                (Call ''__enter__'' [VObj ctx] [], Returned (VObj v))] @ es3
           @ [(Call ''__exit__'' [VObj ctx] [], Returned VNone)] @ es4 @ es5 @ es6 @ es7
           @ [(Call ''lr_scheduler.step'' [VObj (lr_scheduler lc)] [], Returned VNone)]"
    by blast
  from backward_and_step_Inr [OF r4] obtain scaled where es4: "es4 =
     [(Call ''scaler.scale'' [VObj (scaler lc), VObj loss] [], Returned (VObj scaled)),
      (Call ''backward'' [VObj scaled] [], Returned VNone),
      (Call ''scaler.step'' [VObj (scaler lc), VObj (optimizer lc)] [], Returned VNone),
      (Call ''scaler.update'' [VObj (scaler lc)] [], Returned VNone),
      (Call ''torch.cuda.synchronize'' [] [], Returned VNone)]"
    by blast
  let ?rest = "(Call ''torch.cuda.synchronize'' [] [], Returned VNone) # es5 @ es6 @ es7
           @ [(Call ''lr_scheduler.step'' [VObj (lr_scheduler lc)] [], Returned VNone)]"
  define T where "T = {''amp.autocast'', ''__enter__'',
        ''__exit__'', ''net'', ''criteria_pre'', ''criteria'', ''+'', ''scaler.scale'',
        ''backward'', ''scaler.step'', ''scaler.update''}"
  have b: "\<forall>e \<in> set es1. callee (fst e) \<notin> T" "\<forall>e \<in> set es5. callee (fst e) \<notin> T"
    "\<forall>e \<in> set es6. callee (fst e) \<notin> T" "\<forall>e \<in> set es7. callee (fst e) \<notin> T"
    by (rule emits_disjoint(1) [OF emits_prepare_batch r1]
        emits_disjoint(1) [OF emits_update_meters r5]
        emits_disjoint(1) [OF emits_print_message r6]
        emits_disjoint(1) [OF emits_evaluate_and_save r7], simp add: T_def)+
  have "\<forall>e \<in> set (es1 @ ?rest). callee (fst e) \<notin> T"
    apply (simp add: ball_Un b)
    apply (simp add: T_def)
    done
  then have out: "\<forall>e \<in> set (es1 @ ?rest). callee (fst e) \<notin> {''amp.autocast'', ''__enter__'',
        ''__exit__'', ''net'', ''criteria_pre'', ''criteria'', ''+'', ''scaler.scale'',
        ''backward'', ''scaler.step'', ''scaler.update''}"
    by (simp only: T_def)
  show ?thesis
    apply (rule exI [of _ es1], rule exI [of _ ctx], rule exI [of _ v], rule exI [of _ img],
        rule exI [of _ label], rule exI [of _ h3], rule exI [of _ es3], rule exI [of _ loss],
        rule exI [of _ loss_pre], rule exI [of _ loss_aux], rule exI [of _ scaled],
        rule exI [of _ ?rest])
    apply (intro conjI)
      apply (simp add: es es4)
     apply (rule r3)
    apply (rule out)
    done
qed

theorem mixed_precision_steps_witness:
  "\<exists>b es es_pre ctx v img label h' es_body loss loss_pre loss_aux scaled es_rest.
     train_iter fw_ok cfg_ok lc_ok ''logs'' ''data'' ''val.txt'' ''fa'' ''train.txt'' 0 0
       (Obj 100, Obj 101) [] = (Inr b, es) \<and>
     es = es_pre
          @ [(Call ''amp.autocast'' [] [(''enabled'', VBool (use_fp16 cfg_ok))],
              Returned (VObj ctx)),
             (Call ''__enter__'' [VObj ctx] [], Returned (VObj v))]
          @ es_body
          @ [(Call ''__exit__'' [VObj ctx] [], Returned VNone),
             (Call ''scaler.scale'' [VObj (scaler lc_ok), VObj loss] [], Returned (VObj scaled)),
             (Call ''backward'' [VObj scaled] [], Returned VNone),
             (Call ''scaler.step'' [VObj (scaler lc_ok), VObj (optimizer lc_ok)] [],
              Returned VNone),
             (Call ''scaler.update'' [VObj (scaler lc_ok)] [], Returned VNone)]
          @ es_rest \<and>
     forward_and_loss fw_ok lc_ok 0 img label h' = (Inr (loss, loss_pre, loss_aux), es_body) \<and>
     list_all (\<lambda>e. callee (fst e) \<notin> {''amp.autocast'', ''__enter__'',
        ''__exit__'', ''net'', ''criteria_pre'', ''criteria'', ''+'', ''scaler.scale'',
        ''backward'', ''scaler.step'', ''scaler.update''}) (es_pre @ es_rest)"
proof -
  obtain es where run:
    "train_iter fw_ok cfg_ok lc_ok ''logs'' ''data'' ''val.txt'' ''fa'' ''train.txt'' 0 0
       (Obj 100, Obj 101) [] = (Inr (1 / 2), es)"
    using train_iter_ok by (metis prod.collapse)
  from mixed_precision_steps [OF run] run show ?thesis
    unfolding list_all_iff by blast
qed

subsection \<open>The best score\<close>







subsection \<open>Exceptions\<close>









































end
